theory Spec2Isabelle
  imports Main "HOL-Library.Sublist" "HOL-Library.Word" "HOL-Library.Finite_Map"
    "HOL-Library.List_Lexorder" "HOL-Library.Char_ord"
begin

text \<open>
  A shallow embedding of the two controllers of the maas-operator: the platform
  controller (\<open>internal/controller/maasplatform_controller.go\<close>), which renders the
  embedded manifests and applies them, and the tier controller, which aggregates the
  tiers that target a platform into a ConfigMap and two rate-limit policies.  Every
  controller function takes the environment \<open>r\<close> and the cluster state and returns its
  error (or nil) with the new state.
\<close>

section \<open>Byte strings and the standard-library helpers the controllers call\<close>

text \<open>
  Go's \<open>[]byte\<close> and \<open>string\<close> are both modelled as \<open>string\<close> (a list of 8-bit
  characters).  The helpers below are the functions of Go's \<open>bytes\<close> and \<open>strings\<close>
  packages that \<open>maasplatform_controller.go\<close> and the tier controller call.
\<close>

text \<open>\<open>bytes.Split(data, []byte("\n"))\<close>: the pieces between newlines; never empty.\<close>

fun Split :: "string \<Rightarrow> string list" where
  "Split [] = [[]]"
| "Split (c # cs) =
     (if c = CHR 0x0A then [] # Split cs
      else (case Split cs of [] \<Rightarrow> [[c]] | l # ls \<Rightarrow> (c # l) # ls))"

text \<open>
  \<open>bytes.TrimSpace\<close> removes, at both ends, every rune that \<open>unicode.IsSpace\<close> accepts.
  \<open>spaceRunes\<close> lists the UTF-8 encodings of those runes: the six ASCII ones, U+0085,
  U+00A0, U+1680, U+2000..U+200A, U+2028, U+2029, U+202F, U+205F and U+3000.  A byte that
  does not start one of these encodings decodes to a rune that is not a space.
\<close>

definition spaceRunes :: "string list" where
  "spaceRunes =
     [[CHR 0x09], [CHR 0x0A], [CHR 0x0B], [CHR 0x0C], [CHR 0x0D], [CHR 0x20],
      [CHR 0xC2, CHR 0x85], [CHR 0xC2, CHR 0xA0],
      [CHR 0xE1, CHR 0x9A, CHR 0x80],
      [CHR 0xE2, CHR 0x80, CHR 0x80], [CHR 0xE2, CHR 0x80, CHR 0x81],
      [CHR 0xE2, CHR 0x80, CHR 0x82], [CHR 0xE2, CHR 0x80, CHR 0x83],
      [CHR 0xE2, CHR 0x80, CHR 0x84], [CHR 0xE2, CHR 0x80, CHR 0x85],
      [CHR 0xE2, CHR 0x80, CHR 0x86], [CHR 0xE2, CHR 0x80, CHR 0x87],
      [CHR 0xE2, CHR 0x80, CHR 0x88], [CHR 0xE2, CHR 0x80, CHR 0x89],
      [CHR 0xE2, CHR 0x80, CHR 0x8A],
      [CHR 0xE2, CHR 0x80, CHR 0xA8], [CHR 0xE2, CHR 0x80, CHR 0xA9],
      [CHR 0xE2, CHR 0x80, CHR 0xAF], [CHR 0xE2, CHR 0x81, CHR 0x9F],
      [CHR 0xE3, CHR 0x80, CHR 0x80]]"

text \<open>Strip leading occurrences of the given (non-empty) byte patterns.\<close>

function stripRunes :: "string list \<Rightarrow> string \<Rightarrow> string" where
  "stripRunes rs s =
     (case find (\<lambda>r. r \<noteq> [] \<and> prefix r s) rs of
        None \<Rightarrow> s
      | Some r \<Rightarrow> stripRunes rs (drop (length r) s))"
  by pat_completeness auto
termination
proof (relation "measure (\<lambda>(rs, s). length s)")
  show "wf (measure (\<lambda>(rs, s). length s))" by simp
next
  fix rs :: "string list" and s r :: string
  assume "find (\<lambda>r. r \<noteq> [] \<and> prefix r s) rs = Some r"
  then have "r \<noteq> []" and "prefix r s"
    by (auto simp: find_Some_iff)
  then have "s \<noteq> []" by auto
  with \<open>r \<noteq> []\<close> show "((rs, drop (length r) s), (rs, s)) \<in> measure (\<lambda>(rs, s). length s)"
    by simp
qed

declare stripRunes.simps [simp del]

definition TrimSpace :: "string \<Rightarrow> string" where
  "TrimSpace s = rev (stripRunes (map rev spaceRunes) (rev (stripRunes spaceRunes s)))"

text \<open>\<open>bytes.HasPrefix(s, p)\<close>.\<close>

definition HasPrefix :: "string \<Rightarrow> string \<Rightarrow> bool" where
  "HasPrefix s p = prefix p s"

section \<open>Errors\<close>

text \<open>
  A Go \<open>error\<close> value.  \<open>NotFound\<close> is the API error recognised by
  \<open>errors.IsNotFound\<close>; \<open>ApiFailure\<close> is any other error returned from outside the
  repository; \<open>Errorf m e\<close> is \<open>fmt.Errorf("m: %w", e)\<close>.  An \<open>error option\<close> is a
  possibly nil error.
\<close>

datatype error = NotFound | ApiFailure string | Errorf string error

fun isNotFound :: "error \<Rightarrow> bool" where
  "isNotFound NotFound = True"
| "isNotFound (ApiFailure m) = False"
| "isNotFound (Errorf m e) = isNotFound e"

fun IsNotFound :: "error option \<Rightarrow> bool" where
  "IsNotFound None = False"
| "IsNotFound (Some e) = isNotFound e"

section \<open>The document splitter (\<open>splitYAMLDocuments\<close>)\<close>

text \<open>The test of the loop: \<open>bytes.HasPrefix(bytes.TrimSpace(line), []byte("---"))\<close>.\<close>

definition isSeparator :: "string \<Rightarrow> bool" where
  "isSeparator line = HasPrefix (TrimSpace line) ''---''"

text \<open>
  The loop over \<open>lines\<close>, with the loop variables \<open>currentDoc\<close> and \<open>documents\<close>.
  The test \<open>i < len(lines)-1\<close> holds exactly when lines remain after the current one.
\<close>

fun splitLoop :: "string list \<Rightarrow> string \<Rightarrow> string list \<Rightarrow> string \<times> string list" where
  "splitLoop [] currentDoc documents = (currentDoc, documents)"
| "splitLoop (line # lines) currentDoc documents =
     (if isSeparator line \<and> length currentDoc > 0
      then splitLoop lines [] (documents @ [currentDoc])
      else splitLoop lines
             (currentDoc @ line @ (if lines \<noteq> [] then [CHR 0x0A] else [])) documents)"

definition splitYAMLDocuments :: "string \<Rightarrow> string list \<times> error option" where
  "splitYAMLDocuments data =
     (case splitLoop (Split data) [] [] of
        (currentDoc, documents) \<Rightarrow>
          (if length currentDoc > 0 then documents @ [currentDoc] else documents, None))"

section \<open>Data model\<close>

text \<open>
  The dynamic values stored in a \<open>map[string]interface{}\<close>, tagged by the Go type the
  source gives them: \<open>string\<close>, \<open>int32\<close>, \<open>[]string\<close>,
  \<open>[]map[string]interface{}\<close> and \<open>map[string]interface{}\<close>.
\<close>

datatype val =
    VString string
  | VInt32 "32 word"
  | VStrings "string list"
  | VMaps "(string, val) fmap list"
  | VMap "(string, val) fmap"

record ObjectKey =
  key_Namespace :: string
  key_Name :: string

record OwnerReference =
  or_APIVersion :: string
  or_Kind :: string
  or_Name :: string
  or_UID :: string
  or_Controller :: bool

text \<open>
  \<open>unstructured.Unstructured\<close>: the fields read through accessors (\<open>GetKind\<close>,
  \<open>GetName\<close>, \<open>GetNamespace\<close>, \<open>GetResourceVersion\<close>, labels, owner references) are
  record fields; \<open>u_Object\<close> holds the remaining top-level fields such as \<open>spec\<close>.
\<close>

record Unstructured =
  u_APIVersion :: string
  u_Kind :: string
  u_Name :: string
  u_Namespace :: string
  u_Labels :: "(string, string) fmap"
  u_OwnerReferences :: "OwnerReference list"
  u_ResourceVersion :: string
  u_Object :: "(string, val) fmap"

definition emptyUnstructured :: Unstructured where
  "emptyUnstructured =
     \<lparr>u_APIVersion = [], u_Kind = [], u_Name = [], u_Namespace = [], u_Labels = fmempty,
      u_OwnerReferences = [], u_ResourceVersion = [], u_Object = fmempty\<rparr>"

record MaasPlatform =
  mp_Name :: string
  mp_Namespace :: string
  mp_UID :: string

record MaasPlatformTargetRef =
  ref_Name :: string
  ref_Namespace :: string

record TierRateLimitConfig =
  rl_Limit :: "32 word"
  rl_Window :: string
  rl_Counters :: "string list"

record TierTokenRateLimitConfig =
  trl_Limit :: "32 word"
  trl_Window :: string
  trl_Counters :: "string list"

record TierSpec =
  TargetRef :: MaasPlatformTargetRef
  RateLimits :: "TierRateLimitConfig option"
  TokenRateLimits :: "TierTokenRateLimitConfig option"
  Models :: "string list"

record Tier =
  tier_Name :: string
  tier_GenerateName :: string
  tier_Namespace :: string
  tier_Spec :: TierSpec

record ConfigMap =
  cm_Name :: string
  cm_Namespace :: string
  cm_Labels :: "(string, string) fmap"
  cm_Data :: "(string, string) fmap"
  cm_ResourceVersion :: string

definition emptyConfigMap :: ConfigMap where
  "emptyConfigMap =
     \<lparr>cm_Name = [], cm_Namespace = [], cm_Labels = fmempty, cm_Data = fmempty,
      cm_ResourceVersion = []\<rparr>"

section \<open>The world outside the repository\<close>

text \<open>
  Everything the controllers reach that is not written in the repository is a field of
  \<open>Env\<close>, over an arbitrary cluster state \<open>'s\<close>:
  \<^item> the controller-runtime client.  Go's generic \<open>Get\<close>, \<open>List\<close>, \<open>Create\<close>, \<open>Update\<close>
    are split by the static type of the object passed.  A \<open>Get\<close> writes into the object
    the caller hands in, so where the source passes an object it goes on using
    (\<open>Get_ConfigMap\<close>, \<open>Get_Unstructured\<close>) the call takes that object and returns it as
    the call left it, next to the error.  Every call may fail and may change the state;
  \<^item> \<open>os.Getenv\<close>, the embedded \<open>manifestsFS.ReadFile\<close>, \<open>yaml.Unmarshal\<close>,
    \<open>ctrl.SetControllerReference\<close> and \<open>unstructured.SetNestedMap\<close> (called with
    the object, the value and the field path; it returns the object as the call left it).
\<close>

record 's Env =
  Get_MaasPlatform :: "ObjectKey \<Rightarrow> 's \<Rightarrow> (error + MaasPlatform) \<times> 's"
  Get_Tier :: "ObjectKey \<Rightarrow> 's \<Rightarrow> (error + Tier) \<times> 's"
  List_MaasPlatform :: "'s \<Rightarrow> (error + MaasPlatform list) \<times> 's"
  List_Tier :: "'s \<Rightarrow> (error + Tier list) \<times> 's"
  Get_ConfigMap :: "ObjectKey \<Rightarrow> ConfigMap \<Rightarrow> 's \<Rightarrow> (error option \<times> ConfigMap) \<times> 's"
  Create_ConfigMap :: "ConfigMap \<Rightarrow> 's \<Rightarrow> error option \<times> 's"
  Update_ConfigMap :: "ConfigMap \<Rightarrow> 's \<Rightarrow> error option \<times> 's"
  Get_Unstructured :: "ObjectKey \<Rightarrow> Unstructured \<Rightarrow> 's \<Rightarrow> (error option \<times> Unstructured) \<times> 's"
  Create_Unstructured :: "Unstructured \<Rightarrow> 's \<Rightarrow> error option \<times> 's"
  Update_Unstructured :: "Unstructured \<Rightarrow> 's \<Rightarrow> error option \<times> 's"
  Status_Update :: "MaasPlatform \<Rightarrow> 's \<Rightarrow> error option \<times> 's"
  Getenv :: "string \<Rightarrow> string"
  ReadFile :: "string \<Rightarrow> error + string"
  Unmarshal :: "string \<Rightarrow> error + Unstructured"
  SetControllerReference :: "MaasPlatform \<Rightarrow> Unstructured \<Rightarrow> error option \<times> Unstructured"
  SetNestedMap :: "Unstructured \<Rightarrow> (string, val) fmap \<Rightarrow> string list \<Rightarrow> error option \<times> Unstructured"

section \<open>Variable substitution (\<open>substituteEnvVars\<close>)\<close>

text \<open>
  \<open>unstructured.NestedString(obj, path...)\<close>, without its error result, which the
  source discards: the string at the path and \<open>found\<close>, which is false when a field is
  missing, a level is not a map, or the value is not a string.
\<close>

fun NestedField :: "(string, val) fmap \<Rightarrow> string list \<Rightarrow> val option" where
  "NestedField obj [] = Some (VMap obj)"
| "NestedField obj (f # fs) =
     (case fmlookup obj f of
        None \<Rightarrow> None
      | Some v \<Rightarrow>
          (if fs = [] then Some v
           else (case v of VMap m \<Rightarrow> NestedField m fs | _ \<Rightarrow> None)))"

definition NestedString :: "(string, val) fmap \<Rightarrow> string list \<Rightarrow> string \<times> bool" where
  "NestedString obj path =
     (case NestedField obj path of Some (VString str) \<Rightarrow> (str, True) | _ \<Rightarrow> ([], False))"

text \<open>
  \<open>strings.ReplaceAll(s, old, new)\<close> for a non-empty \<open>old\<close>: the non-overlapping
  occurrences are replaced from left to right.  The controllers pass two fixed non-empty
  patterns; the empty pattern, which Go treats specially, is mapped to the identity.
\<close>

function ReplaceAll :: "string \<Rightarrow> string \<Rightarrow> string \<Rightarrow> string" where
  "ReplaceAll s old new =
     (if old = [] \<or> s = [] then s
      else if prefix old s then new @ ReplaceAll (drop (length old) s) old new
      else hd s # ReplaceAll (tl s) old new)"
  by pat_completeness auto
termination
  by (relation "measure (\<lambda>(s, old, new). length s)") auto

declare ReplaceAll.simps [simp del]

text \<open>
  Lines 557 to 575: the value of \<open>clusterDomain\<close> when the replacements start.  The
  object handed to \<open>Get\<close> is an empty \<open>Unstructured\<close> with its API version and kind set.
\<close>

definition resolveClusterDomain :: "'s Env \<Rightarrow> 's \<Rightarrow> string \<times> 's" where
  "resolveClusterDomain r s =
     (let clusterDomain = Getenv r ''CLUSTER_DOMAIN'' in
      if clusterDomain = [] then
        (case Get_Unstructured r \<lparr>key_Namespace = [], key_Name = ''cluster''\<rparr>
                (emptyUnstructured\<lparr>u_APIVersion := ''config.openshift.io/v1'',
                                   u_Kind := ''Ingress''\<rparr>) s of
           ((err, ingressConfig), s') \<Rightarrow>
             (let clusterDomain =
                    (if err = None then
                       (case NestedString (u_Object ingressConfig) [''spec'', ''domain''] of
                          (domain, found) \<Rightarrow> if found then domain else clusterDomain)
                     else clusterDomain);
                  clusterDomain =
                    (if clusterDomain = [] then ''apps.example.com'' else clusterDomain)
              in (clusterDomain, s')))
      else (clusterDomain, s))"

definition substituteEnvVars :: "'s Env \<Rightarrow> string \<Rightarrow> 's \<Rightarrow> string \<times> 's" where
  "substituteEnvVars r content s =
     (case resolveClusterDomain r s of
        (clusterDomain, s') \<Rightarrow>
          (let content = ReplaceAll content ''${CLUSTER_DOMAIN}'' clusterDomain;
               content = ReplaceAll content ''$CLUSTER_DOMAIN'' clusterDomain
           in (content, s')))"

section \<open>The platform controller\<close>

text \<open>
  \<open>applyUnstructured\<close>: the lookup goes into a fresh \<open>current\<close> carrying the object's
  group, version and kind; not-found leads to \<open>Create\<close>, another error is returned, and
  otherwise the stored resource version is copied and \<open>Update\<close> is called.
\<close>

definition applyUnstructured :: "'s Env \<Rightarrow> Unstructured \<Rightarrow> 's \<Rightarrow> error option \<times> 's" where
  "applyUnstructured r obj s =
     (case Get_Unstructured r \<lparr>key_Namespace = u_Namespace obj, key_Name = u_Name obj\<rparr>
             (emptyUnstructured\<lparr>u_APIVersion := u_APIVersion obj, u_Kind := u_Kind obj\<rparr>) s of
        ((err, current), s1) \<Rightarrow>
          if IsNotFound err then Create_Unstructured r obj s1
          else if err \<noteq> None then (err, s1)
          else Update_Unstructured r
                 (obj\<lparr>u_ResourceVersion := u_ResourceVersion current\<rparr>) s1)"

text \<open>
  Lines 527 to 546 of \<open>deployEmbeddedManifest\<close>: the owner reference, then the apply.
  An error of \<open>SetControllerReference\<close> is logged and the object is used as the call
  left it.
\<close>

definition setOwnerAndApply ::
  "'s Env \<Rightarrow> MaasPlatform \<Rightarrow> Unstructured \<Rightarrow> 's \<Rightarrow> error option \<times> 's" where
  "setOwnerAndApply r maasPlatform obj s =
     (let obj' =
            (if u_Namespace obj \<noteq> [] \<and> u_Namespace obj = mp_Namespace maasPlatform
             then snd (SetControllerReference r maasPlatform obj)
             else obj)
      in case applyUnstructured r obj' s of
           (Some err, s1) \<Rightarrow>
             (Some (Errorf (''failed to apply resource '' @ u_Kind obj' @ ''/'' @ u_Name obj')
                      err), s1)
         | (None, s1) \<Rightarrow> (None, s1))"

text \<open>
  Lines 505 to 546: the body of the loop for one parsed object.  The result \<open>None\<close>
  means the loop goes on to the next document (the object was skipped or applied);
  \<open>Some err\<close> is the error \<open>deployEmbeddedManifest\<close> returns at once.
\<close>

definition deployObject ::
  "'s Env \<Rightarrow> MaasPlatform \<Rightarrow> bool \<Rightarrow> Unstructured \<Rightarrow> 's \<Rightarrow> error option \<times> 's" where
  "deployObject r maasPlatform skipConfigMap obj s =
     (if skipConfigMap \<and> u_Kind obj = ''ConfigMap'' \<and> u_Name obj = ''tier-to-group-mapping''
      then (None, s)
      else if u_Kind obj = ''PersistentVolumeClaim'' then
        (case Get_Unstructured r \<lparr>key_Namespace = u_Namespace obj, key_Name = u_Name obj\<rparr>
                (emptyUnstructured\<lparr>u_APIVersion := u_APIVersion obj, u_Kind := u_Kind obj\<rparr>) s of
           ((err, existing), s1) \<Rightarrow>
             (case err of
                None \<Rightarrow> (None, s1)
              | Some e \<Rightarrow>
                  if \<not> isNotFound e then
                    (Some (Errorf (''failed to check existing PVC '' @ u_Namespace obj @ ''/''
                                    @ u_Name obj) e), s1)
                  else setOwnerAndApply r maasPlatform obj s1))
      else setOwnerAndApply r maasPlatform obj s)"

text \<open>The loop of \<open>deployEmbeddedManifest\<close> over the documents.\<close>

fun deployDocuments ::
  "'s Env \<Rightarrow> MaasPlatform \<Rightarrow> bool \<Rightarrow> string list \<Rightarrow> 's \<Rightarrow> error option \<times> 's" where
  "deployDocuments r maasPlatform skipConfigMap [] s = (None, s)"
| "deployDocuments r maasPlatform skipConfigMap (doc # documents) s =
     (if length doc = 0 then deployDocuments r maasPlatform skipConfigMap documents s
      else
        (case Unmarshal r doc of
           Inl err \<Rightarrow> deployDocuments r maasPlatform skipConfigMap documents s
         | Inr obj \<Rightarrow>
             (case deployObject r maasPlatform skipConfigMap obj s of
                (Some err, s1) \<Rightarrow> (Some err, s1)
              | (None, s1) \<Rightarrow> deployDocuments r maasPlatform skipConfigMap documents s1)))"

definition deployEmbeddedManifest ::
  "'s Env \<Rightarrow> string \<Rightarrow> MaasPlatform \<Rightarrow> bool \<Rightarrow> 's \<Rightarrow> error option \<times> 's" where
  "deployEmbeddedManifest r path maasPlatform skipConfigMap s =
     (case ReadFile r path of
        Inl err \<Rightarrow> (Some (Errorf (''failed to read embedded manifest '' @ path) err), s)
      | Inr data \<Rightarrow>
          (case substituteEnvVars r data s of
             (dataStr, s1) \<Rightarrow>
               (case splitYAMLDocuments dataStr of
                  (documents, Some err) \<Rightarrow> (Some (Errorf ''failed to parse YAML'' err), s1)
                | (documents, None) \<Rightarrow>
                    deployDocuments r maasPlatform skipConfigMap documents s1)))"

text \<open>\<open>ensureNamespaces\<close>: the loop over the required namespaces.\<close>

fun ensureNamespacesLoop :: "'s Env \<Rightarrow> string list \<Rightarrow> 's \<Rightarrow> error option \<times> 's" where
  "ensureNamespacesLoop r [] s = (None, s)"
| "ensureNamespacesLoop r (ns # requiredNamespaces) s =
     (case Get_Unstructured r \<lparr>key_Namespace = [], key_Name = ns\<rparr>
             (emptyUnstructured\<lparr>u_APIVersion := ''v1'', u_Kind := ''Namespace'',
                                u_Name := ns\<rparr>) s of
        ((err, namespace), s1) \<Rightarrow>
          (case err of
             None \<Rightarrow> ensureNamespacesLoop r requiredNamespaces s1
           | Some e \<Rightarrow>
               if isNotFound e then
                 (case Create_Unstructured r namespace s1 of
                    (Some err', s2) \<Rightarrow>
                      (Some (Errorf (''failed to create namespace '' @ ns) err'), s2)
                  | (None, s2) \<Rightarrow> ensureNamespacesLoop r requiredNamespaces s2)
               else (Some (Errorf (''failed to check namespace '' @ ns) e), s1)))"

definition ensureNamespaces :: "'s Env \<Rightarrow> 's \<Rightarrow> error option \<times> 's" where
  "ensureNamespaces r s = ensureNamespacesLoop r [''maas-api'', ''kuadrant-system''] s"

definition updateStatus :: "'s Env \<Rightarrow> MaasPlatform \<Rightarrow> 's \<Rightarrow> error option \<times> 's" where
  "updateStatus r maasPlatform s = Status_Update r maasPlatform s"

text \<open>
  \<open>MaasPlatformReconciler.Reconcile\<close>.  The \<open>ctrl.Result\<close> it returns is always the
  empty one, so the model returns the error (or nil) and the state.
\<close>

definition MaasPlatformReconciler_Reconcile :: "'s Env \<Rightarrow> ObjectKey \<Rightarrow> 's \<Rightarrow> error option \<times> 's" where
  "MaasPlatformReconciler_Reconcile r req s =
     (case Get_MaasPlatform r req s of
        (Inl err, s1) \<Rightarrow> if isNotFound err then (None, s1) else (Some err, s1)
      | (Inr maasPlatform, s1) \<Rightarrow>
          (case ensureNamespaces r s1 of
             (Some err, s2) \<Rightarrow> (Some err, s2)
           | (None, s2) \<Rightarrow>
          (case deployEmbeddedManifest r ''manifests/maas-api/resources.yaml''
                  maasPlatform True s2 of
             (Some err, s3) \<Rightarrow> (Some err, s3)
           | (None, s3) \<Rightarrow>
          (case deployEmbeddedManifest r ''manifests/networking/resources.yaml''
                  maasPlatform False s3 of
             (Some err, s4) \<Rightarrow> (Some err, s4)
           | (None, s4) \<Rightarrow>
          (case deployEmbeddedManifest r ''manifests/policies/gateway-auth-policy.yaml''
                  maasPlatform False s4 of
             (Some err, s5) \<Rightarrow> (Some err, s5)
           | (None, s5) \<Rightarrow>
          (case updateStatus r maasPlatform s5 of
             (Some err, s6) \<Rightarrow> (Some err, s6)
           | (None, s6) \<Rightarrow> (None, s6)))))))"

section \<open>The tier controller\<close>

text \<open>
  The name a tier is written under: its name, or its generate-name followed by
  \<open>-tier\<close> when the name is empty (the same three lines in each of the three builders).
\<close>

definition tierNameOf :: "Tier \<Rightarrow> string" where
  "tierNameOf tier =
     (if tier_Name tier = [] then tier_GenerateName tier @ ''-tier'' else tier_Name tier)"

text \<open>
  \<open>strings.ToLower\<close> on ASCII letters (object names are ASCII) and
  \<open>strings.Contains\<close>.
\<close>

definition ToLower :: "string \<Rightarrow> string" where
  "ToLower str =
     map (\<lambda>c. if CHR ''A'' \<le> c \<and> c \<le> CHR ''Z'' then char_of (of_char c + (32::nat)) else c) str"

definition Contains :: "string \<Rightarrow> string \<Rightarrow> bool" where
  "Contains str substr = sublist substr str"

definition tierLevel :: "string \<Rightarrow> nat" where
  "tierLevel tierName =
     (if Contains (ToLower tierName) ''premium'' then 1
      else if Contains (ToLower tierName) ''enterprise'' then 2
      else 0)"

text \<open>\<open>fmt.Sprintf("%d", n)\<close> for a non-negative \<open>n\<close>.\<close>

fun Sprintf_d :: "nat \<Rightarrow> string" where
  "Sprintf_d n =
     (if n < 10 then [char_of (48 + n)]
      else Sprintf_d (n div 10) @ [char_of (48 + n mod 10)])"

declare Sprintf_d.simps [simp del]

text \<open>The loop that writes one block per sorted tier into the string builder.\<close>

fun tierMappingsLoop :: "Tier list \<Rightarrow> string \<Rightarrow> string" where
  "tierMappingsLoop [] tierMappings = tierMappings"
| "tierMappingsLoop (tier # sortedTiers) tierMappings =
     (let tierName = tierNameOf tier;
          level = tierLevel tierName
      in tierMappingsLoop sortedTiers
           (tierMappings
            @ ''  # Tier: '' @ tierName @ ''\<newline>''
            @ ''  - name: '' @ tierName @ ''\<newline>''
            @ ''    level: '' @ Sprintf_d level @ ''\<newline>''
            @ ''    groups:\<newline>''
            @ ''      - tier-'' @ tierName @ ''-users\<newline>''
            @ ''      - system:authenticated\<newline>''
            @ ''\<newline>''))"

text \<open>
  \<open>updateTierConfigMap\<close>.  \<open>sort.Slice\<close> orders the copy by name; tiers of equal name
  keep their list order here (Go leaves their order open).  The second \<open>Get\<close> is made
  into the \<open>configMap\<close> that was just filled, and what it leaves there is what
  \<open>Create\<close> or \<open>Update\<close> receives.
\<close>

definition updateTierConfigMap ::
  "'s Env \<Rightarrow> Tier list \<Rightarrow> MaasPlatform \<Rightarrow> 's \<Rightarrow> error option \<times> 's" where
  "updateTierConfigMap r tiers maasPlatform s =
     (let key = \<lparr>key_Namespace = ''maas-api'', key_Name = ''tier-to-group-mapping''\<rparr> in
      case Get_ConfigMap r key emptyConfigMap s of
        ((err, configMap), s1) \<Rightarrow>
          (case (case err of
                   None \<Rightarrow> Inr configMap
                 | Some e \<Rightarrow>
                     if isNotFound e
                     then Inr (emptyConfigMap\<lparr>cm_Name := ''tier-to-group-mapping'',
                                               cm_Namespace := ''maas-api''\<rparr>)
                     else Inl e) of
             Inl e \<Rightarrow> (Some (Errorf ''failed to get ConfigMap'' e), s1)
           | Inr configMap \<Rightarrow>
               (let sortedTiers = sort_key tier_Name tiers;
                    tierMappings = tierMappingsLoop sortedTiers ''tiers: |\<newline>'';
                    configMap = configMap\<lparr>cm_Data := fmupd ''tiers'' tierMappings fmempty\<rparr>;
                    configMap =
                      (if length tiers > 0 then
                         configMap\<lparr>cm_Labels :=
                           fmupd ''maas-platform''
                             (mp_Name maasPlatform @ ''.'' @ mp_Namespace maasPlatform)
                             (fmupd ''app.kubernetes.io/managed-by'' ''maas-operator''
                                (cm_Labels configMap))\<rparr>
                       else configMap)
                in case Get_ConfigMap r key configMap s1 of
                     ((err2, configMap), s2) \<Rightarrow>
                       if IsNotFound err2 then
                         (case Create_ConfigMap r configMap s2 of
                            (Some e, s3) \<Rightarrow> (Some (Errorf ''failed to create ConfigMap'' e), s3)
                          | (None, s3) \<Rightarrow> (None, s3))
                       else
                         (case Update_ConfigMap r configMap s2 of
                            (Some e, s3) \<Rightarrow> (Some (Errorf ''failed to update ConfigMap'' e), s3)
                          | (None, s3) \<Rightarrow> (None, s3)))))"

text \<open>The predicate text \<open>fmt.Sprintf(`auth.identity.tier == "%s"`, tierName)\<close>.\<close>

definition tierPredicate :: "string \<Rightarrow> string" where
  "tierPredicate tierName = ''auth.identity.tier == '' @ [CHR 0x22] @ tierName @ [CHR 0x22]"

text \<open>The entry built for one tier from a limit, a window and the counters.\<close>

definition tierLimitOf :: "string \<Rightarrow> 32 word \<Rightarrow> string \<Rightarrow> string list \<Rightarrow> val" where
  "tierLimitOf tierName limit window counters =
     VMap (fmap_of_list
       [(''rates'', VMaps [fmap_of_list [(''limit'', VInt32 limit), (''window'', VString window)]]),
        (''when'', VMaps [fmap_of_list [(''predicate'', VString (tierPredicate tierName))]]),
        (''counters'',
           VStrings (if length counters = 0 then [''auth.identity.userid''] else counters))])"

text \<open>
  Lines 280 to 312: the loop that fills \<open>limits\<close>, a Go map, from the tiers in list
  order; and lines 370 to 403, the same for the token limits.
\<close>

fun rateLimitsLoop :: "Tier list \<Rightarrow> (string, val) fmap \<Rightarrow> (string, val) fmap" where
  "rateLimitsLoop [] limits = limits"
| "rateLimitsLoop (tier # tiers) limits =
     (case RateLimits (tier_Spec tier) of
        None \<Rightarrow> rateLimitsLoop tiers limits
      | Some rl \<Rightarrow>
          (let tierName = tierNameOf tier;
               tierLimit = tierLimitOf tierName (rl_Limit rl) (rl_Window rl) (rl_Counters rl)
           in rateLimitsLoop tiers (fmupd tierName tierLimit limits)))"

fun tokenRateLimitsLoop :: "Tier list \<Rightarrow> (string, val) fmap \<Rightarrow> (string, val) fmap" where
  "tokenRateLimitsLoop [] limits = limits"
| "tokenRateLimitsLoop (tier # tiers) limits =
     (case TokenRateLimits (tier_Spec tier) of
        None \<Rightarrow> tokenRateLimitsLoop tiers limits
      | Some trl \<Rightarrow>
          (let tierName = tierNameOf tier;
               limitName = tierName @ ''-user-tokens'';
               tierLimit =
                 tierLimitOf tierName (trl_Limit trl) (trl_Window trl) (trl_Counters trl)
           in tokenRateLimitsLoop tiers (fmupd limitName tierLimit limits)))"

text \<open>The value stored under \<open>spec\<close>: the fixed gateway reference and the limits.\<close>

definition policySpec :: "(string, val) fmap \<Rightarrow> (string, val) fmap" where
  "policySpec limits =
     fmap_of_list
       [(''targetRef'', VMap (fmap_of_list
           [(''group'', VString ''gateway.networking.k8s.io''),
            (''kind'', VString ''Gateway''),
            (''name'', VString ''maas-default-gateway'')])),
        (''limits'', VMap limits)]"

text \<open>
  The part shared, line for line, by \<open>updateRateLimitPolicy\<close> and
  \<open>updateTokenRateLimitPolicy\<close>: they differ in the API version, the kind, the policy
  name, the limits and the word used in the error messages.
\<close>

definition updatePolicy ::
  "'s Env \<Rightarrow> string \<Rightarrow> string \<Rightarrow> string \<Rightarrow> (string, val) fmap \<Rightarrow> 's \<Rightarrow> error option \<times> 's" where
  "updatePolicy r apiVersion kind policyName limits s =
     (let key = \<lparr>key_Namespace = ''openshift-ingress'', key_Name = policyName\<rparr> in
      case Get_Unstructured r key
             (emptyUnstructured\<lparr>u_APIVersion := apiVersion, u_Kind := kind\<rparr>) s of
        ((err, policy), s1) \<Rightarrow>
          (case (case err of
                   None \<Rightarrow> Inr policy
                 | Some e \<Rightarrow>
                     if isNotFound e
                     then Inr (policy\<lparr>u_Name := policyName, u_Namespace := ''openshift-ingress''\<rparr>)
                     else Inl e) of
             Inl e \<Rightarrow> (Some (Errorf (''failed to get '' @ kind) e), s1)
           | Inr policy \<Rightarrow>
               (case SetNestedMap r policy (policySpec limits) [''spec''] of
                  (Some e, policy) \<Rightarrow> (Some (Errorf ''failed to set policy spec'' e), s1)
                | (None, policy) \<Rightarrow>
                    (case Get_Unstructured r key policy s1 of
                       ((err2, policy), s2) \<Rightarrow>
                         if IsNotFound err2 then
                           (case Create_Unstructured r policy s2 of
                              (Some e, s3) \<Rightarrow> (Some (Errorf (''failed to create '' @ kind) e), s3)
                            | (None, s3) \<Rightarrow> (None, s3))
                         else
                           (case Update_Unstructured r policy s2 of
                              (Some e, s3) \<Rightarrow> (Some (Errorf (''failed to update '' @ kind) e), s3)
                            | (None, s3) \<Rightarrow> (None, s3))))))"

definition updateRateLimitPolicy ::
  "'s Env \<Rightarrow> Tier list \<Rightarrow> MaasPlatform \<Rightarrow> 's \<Rightarrow> error option \<times> 's" where
  "updateRateLimitPolicy r tiers maasPlatform s =
     updatePolicy r ''kuadrant.io/v1'' ''RateLimitPolicy'' ''gateway-rate-limits''
       (rateLimitsLoop tiers fmempty) s"

definition updateTokenRateLimitPolicy ::
  "'s Env \<Rightarrow> Tier list \<Rightarrow> MaasPlatform \<Rightarrow> 's \<Rightarrow> error option \<times> 's" where
  "updateTokenRateLimitPolicy r tiers maasPlatform s =
     updatePolicy r ''kuadrant.io/v1alpha1'' ''TokenRateLimitPolicy''
       ''gateway-token-rate-limits'' (tokenRateLimitsLoop tiers fmempty) s"

text \<open>
  Lines 124 to 133: a tier is kept when its target reference, with an empty namespace
  read as the tier's own, names the platform.
\<close>

definition targets :: "MaasPlatform \<Rightarrow> Tier \<Rightarrow> bool" where
  "targets maasPlatform tier =
     (let tierNamespace =
            (if ref_Namespace (TargetRef (tier_Spec tier)) = [] then tier_Namespace tier
             else ref_Namespace (TargetRef (tier_Spec tier)))
      in ref_Name (TargetRef (tier_Spec tier)) = mp_Name maasPlatform
         \<and> tierNamespace = mp_Namespace maasPlatform)"

definition reconcileMaasPlatformTiers ::
  "'s Env \<Rightarrow> MaasPlatform \<Rightarrow> 's \<Rightarrow> error option \<times> 's" where
  "reconcileMaasPlatformTiers r maasPlatform s =
     (case List_Tier r s of
        (Inl err, s1) \<Rightarrow> (Some err, s1)
      | (Inr items, s1) \<Rightarrow>
          (let targetTiers = filter (targets maasPlatform) items in
           if length targetTiers = 0 then (None, s1)
           else
             (case updateTierConfigMap r targetTiers maasPlatform s1 of
                (Some err, s2) \<Rightarrow> (Some err, s2)
              | (None, s2) \<Rightarrow>
             (case updateRateLimitPolicy r targetTiers maasPlatform s2 of
                (Some err, s3) \<Rightarrow> (Some err, s3)
              | (None, s3) \<Rightarrow>
             (case updateTokenRateLimitPolicy r targetTiers maasPlatform s3 of
                (Some err, s4) \<Rightarrow> (Some err, s4)
              | (None, s4) \<Rightarrow> (None, s4))))))"

text \<open>
  \<open>reconcileAllMaasPlatforms\<close>: the loop drops the error of each platform and goes
  on; the function returns nil once the list has been read.
\<close>

fun reconcileAllLoop :: "'s Env \<Rightarrow> MaasPlatform list \<Rightarrow> 's \<Rightarrow> 's" where
  "reconcileAllLoop r [] s = s"
| "reconcileAllLoop r (mp # items) s =
     (case reconcileMaasPlatformTiers r mp s of
        (err, s1) \<Rightarrow> reconcileAllLoop r items s1)"

definition reconcileAllMaasPlatforms :: "'s Env \<Rightarrow> 's \<Rightarrow> error option \<times> 's" where
  "reconcileAllMaasPlatforms r s =
     (case List_MaasPlatform r s of
        (Inl err, s1) \<Rightarrow> (Some err, s1)
      | (Inr items, s1) \<Rightarrow> (None, reconcileAllLoop r items s1))"

text \<open>\<open>TierReconciler.Reconcile\<close>.\<close>

definition TierReconciler_Reconcile :: "'s Env \<Rightarrow> ObjectKey \<Rightarrow> 's \<Rightarrow> error option \<times> 's" where
  "TierReconciler_Reconcile r req s =
     (case Get_Tier r req s of
        (Inl err, s1) \<Rightarrow>
          if isNotFound err then reconcileAllMaasPlatforms r s1 else (Some err, s1)
      | (Inr tier, s1) \<Rightarrow>
          (let maasPlatformNamespace =
                 (if ref_Namespace (TargetRef (tier_Spec tier)) = [] then tier_Namespace tier
                  else ref_Namespace (TargetRef (tier_Spec tier)));
               maasPlatformKey =
                 \<lparr>key_Namespace = maasPlatformNamespace,
                  key_Name = ref_Name (TargetRef (tier_Spec tier))\<rparr>
           in case Get_MaasPlatform r maasPlatformKey s1 of
                (Inl err, s2) \<Rightarrow> (Some err, s2)
              | (Inr maasPlatform, s2) \<Rightarrow> reconcileMaasPlatformTiers r maasPlatform s2))"

section \<open>A small in-memory cluster\<close>

text \<open>
  A concrete instance of \<open>Env\<close>, in the manner of controller-runtime's fake client, on
  which the general theorems are run: the cluster holds lists of objects, a table of
  the calls that are made to fail, and the log of the calls made, oldest first.  A
  successful \<open>Get\<close> overwrites the object handed in with the stored one; a failed
  one leaves it as it was.
\<close>

datatype verb = DoGet | DoList | DoCreate | DoUpdate | DoStatusUpdate

type_synonym call = "verb \<times> string \<times> string \<times> string"

record Cluster =
  cl_platforms :: "MaasPlatform list"
  cl_tiers :: "Tier list"
  cl_configMaps :: "ConfigMap list"
  cl_objects :: "Unstructured list"
  cl_faults :: "(call \<times> error) list"
  cl_calls :: "call list"

definition logCall :: "call \<Rightarrow> Cluster \<Rightarrow> Cluster" where
  "logCall c s = s\<lparr>cl_calls := cl_calls s @ [c]\<rparr>"

definition sameObject :: "string \<Rightarrow> ObjectKey \<Rightarrow> Unstructured \<Rightarrow> bool" where
  "sameObject kind key obj =
     (u_Kind obj = kind \<and> u_Namespace obj = key_Namespace key \<and> u_Name obj = key_Name key)"

definition keyOf :: "Unstructured \<Rightarrow> ObjectKey" where
  "keyOf obj = \<lparr>key_Namespace = u_Namespace obj, key_Name = u_Name obj\<rparr>"

definition sameConfigMap :: "ObjectKey \<Rightarrow> ConfigMap \<Rightarrow> bool" where
  "sameConfigMap key cm = (cm_Namespace cm = key_Namespace key \<and> cm_Name cm = key_Name key)"

definition fake_Get_MaasPlatform :: "ObjectKey \<Rightarrow> Cluster \<Rightarrow> (error + MaasPlatform) \<times> Cluster" where
  "fake_Get_MaasPlatform key s =
     (let c = (DoGet, ''MaasPlatform'', key_Namespace key, key_Name key) in
      case map_of (cl_faults s) c of
        Some e \<Rightarrow> (Inl e, logCall c s)
      | None \<Rightarrow>
          (case find (\<lambda>mp. mp_Namespace mp = key_Namespace key \<and> mp_Name mp = key_Name key)
                  (cl_platforms s) of
             None \<Rightarrow> (Inl NotFound, logCall c s)
           | Some mp \<Rightarrow> (Inr mp, logCall c s)))"

definition fake_Get_Tier :: "ObjectKey \<Rightarrow> Cluster \<Rightarrow> (error + Tier) \<times> Cluster" where
  "fake_Get_Tier key s =
     (let c = (DoGet, ''Tier'', key_Namespace key, key_Name key) in
      case map_of (cl_faults s) c of
        Some e \<Rightarrow> (Inl e, logCall c s)
      | None \<Rightarrow>
          (case find (\<lambda>t. tier_Namespace t = key_Namespace key \<and> tier_Name t = key_Name key)
                  (cl_tiers s) of
             None \<Rightarrow> (Inl NotFound, logCall c s)
           | Some t \<Rightarrow> (Inr t, logCall c s)))"

definition fake_List_MaasPlatform :: "Cluster \<Rightarrow> (error + MaasPlatform list) \<times> Cluster" where
  "fake_List_MaasPlatform s =
     (let c = (DoList, ''MaasPlatform'', [], []) in
      case map_of (cl_faults s) c of
        Some e \<Rightarrow> (Inl e, logCall c s)
      | None \<Rightarrow> (Inr (cl_platforms s), logCall c s))"

definition fake_List_Tier :: "Cluster \<Rightarrow> (error + Tier list) \<times> Cluster" where
  "fake_List_Tier s =
     (let c = (DoList, ''Tier'', [], []) in
      case map_of (cl_faults s) c of
        Some e \<Rightarrow> (Inl e, logCall c s)
      | None \<Rightarrow> (Inr (cl_tiers s), logCall c s))"

definition fake_Get_ConfigMap ::
  "ObjectKey \<Rightarrow> ConfigMap \<Rightarrow> Cluster \<Rightarrow> (error option \<times> ConfigMap) \<times> Cluster" where
  "fake_Get_ConfigMap key into s =
     (let c = (DoGet, ''ConfigMap'', key_Namespace key, key_Name key) in
      case map_of (cl_faults s) c of
        Some e \<Rightarrow> ((Some e, into), logCall c s)
      | None \<Rightarrow>
          (case find (sameConfigMap key) (cl_configMaps s) of
             None \<Rightarrow> ((Some NotFound, into), logCall c s)
           | Some cm \<Rightarrow> ((None, cm), logCall c s)))"

definition fake_Create_ConfigMap :: "ConfigMap \<Rightarrow> Cluster \<Rightarrow> error option \<times> Cluster" where
  "fake_Create_ConfigMap cm s =
     (let c = (DoCreate, ''ConfigMap'', cm_Namespace cm, cm_Name cm) in
      case map_of (cl_faults s) c of
        Some e \<Rightarrow> (Some e, logCall c s)
      | None \<Rightarrow>
          (if list_ex (sameConfigMap \<lparr>key_Namespace = cm_Namespace cm, key_Name = cm_Name cm\<rparr>)
                (cl_configMaps s)
           then (Some (ApiFailure ''already exists''), logCall c s)
           else (None, logCall c (s\<lparr>cl_configMaps := cl_configMaps s @ [cm]\<rparr>))))"

definition fake_Update_ConfigMap :: "ConfigMap \<Rightarrow> Cluster \<Rightarrow> error option \<times> Cluster" where
  "fake_Update_ConfigMap cm s =
     (let c = (DoUpdate, ''ConfigMap'', cm_Namespace cm, cm_Name cm);
          key = \<lparr>key_Namespace = cm_Namespace cm, key_Name = cm_Name cm\<rparr> in
      case map_of (cl_faults s) c of
        Some e \<Rightarrow> (Some e, logCall c s)
      | None \<Rightarrow>
          (if list_ex (sameConfigMap key) (cl_configMaps s)
           then (None, logCall c (s\<lparr>cl_configMaps :=
                   map (\<lambda>x. if sameConfigMap key x then cm else x) (cl_configMaps s)\<rparr>))
           else (Some NotFound, logCall c s)))"

definition fake_Get_Unstructured ::
  "ObjectKey \<Rightarrow> Unstructured \<Rightarrow> Cluster \<Rightarrow> (error option \<times> Unstructured) \<times> Cluster" where
  "fake_Get_Unstructured key into s =
     (let c = (DoGet, u_Kind into, key_Namespace key, key_Name key) in
      case map_of (cl_faults s) c of
        Some e \<Rightarrow> ((Some e, into), logCall c s)
      | None \<Rightarrow>
          (case find (sameObject (u_Kind into) key) (cl_objects s) of
             None \<Rightarrow> ((Some NotFound, into), logCall c s)
           | Some obj \<Rightarrow> ((None, obj), logCall c s)))"

definition fake_Create_Unstructured :: "Unstructured \<Rightarrow> Cluster \<Rightarrow> error option \<times> Cluster" where
  "fake_Create_Unstructured obj s =
     (let c = (DoCreate, u_Kind obj, u_Namespace obj, u_Name obj) in
      case map_of (cl_faults s) c of
        Some e \<Rightarrow> (Some e, logCall c s)
      | None \<Rightarrow>
          (if list_ex (sameObject (u_Kind obj) (keyOf obj)) (cl_objects s)
           then (Some (ApiFailure ''already exists''), logCall c s)
           else (None, logCall c (s\<lparr>cl_objects := cl_objects s @ [obj]\<rparr>))))"

definition fake_Update_Unstructured :: "Unstructured \<Rightarrow> Cluster \<Rightarrow> error option \<times> Cluster" where
  "fake_Update_Unstructured obj s =
     (let c = (DoUpdate, u_Kind obj, u_Namespace obj, u_Name obj) in
      case map_of (cl_faults s) c of
        Some e \<Rightarrow> (Some e, logCall c s)
      | None \<Rightarrow>
          (if list_ex (sameObject (u_Kind obj) (keyOf obj)) (cl_objects s)
           then (None, logCall c (s\<lparr>cl_objects :=
                   map (\<lambda>x. if sameObject (u_Kind obj) (keyOf obj) x then obj else x)
                     (cl_objects s)\<rparr>))
           else (Some NotFound, logCall c s)))"

definition fake_Status_Update :: "MaasPlatform \<Rightarrow> Cluster \<Rightarrow> error option \<times> Cluster" where
  "fake_Status_Update mp s =
     (let c = (DoStatusUpdate, ''MaasPlatform'', mp_Namespace mp, mp_Name mp) in
      case map_of (cl_faults s) c of
        Some e \<Rightarrow> (Some e, logCall c s)
      | None \<Rightarrow> (None, logCall c s))"

text \<open>
  \<open>SetControllerReference\<close> as controller-runtime documents it: an object that already
  has another controller is refused; otherwise the owner becomes the controller
  reference.  \<open>SetNestedMap\<close> as apimachinery documents it, for a path of one field.
  The library deep-copies the value before it stores it and accepts only JSON values
  there (maps and slices of \<open>interface{}\<close>, strings, \<open>int64\<close>, \<open>float64\<close>, \<open>bool\<close>); on
  any other Go value, such as the \<open>[]map[string]interface{}\<close>, \<open>[]string\<close> and \<open>int32\<close>
  the builders put into the entry of a tier that declares a limit, it panics.  That check
  is not part of this instance, which stores every value; the general theorems take the
  result of \<open>SetNestedMap\<close> as a hypothesis where they depend on it.
\<close>

definition fake_SetControllerReference ::
  "MaasPlatform \<Rightarrow> Unstructured \<Rightarrow> error option \<times> Unstructured" where
  "fake_SetControllerReference owner obj =
     (if list_ex (\<lambda>ref. or_Controller ref \<and> or_UID ref \<noteq> mp_UID owner) (u_OwnerReferences obj)
      then (Some (ApiFailure ''already owned by another controller''), obj)
      else (None, obj\<lparr>u_OwnerReferences :=
              filter (\<lambda>ref. or_UID ref \<noteq> mp_UID owner) (u_OwnerReferences obj)
              @ [\<lparr>or_APIVersion = ''myapp.io.odh.maas/v1alpha1'', or_Kind = ''MaasPlatform'',
                  or_Name = mp_Name owner, or_UID = mp_UID owner, or_Controller = True\<rparr>]\<rparr>))"

definition fake_SetNestedMap ::
  "Unstructured \<Rightarrow> (string, val) fmap \<Rightarrow> string list \<Rightarrow> error option \<times> Unstructured" where
  "fake_SetNestedMap obj v path =
     (case path of
        [f] \<Rightarrow> (None, obj\<lparr>u_Object := fmupd f (VMap v) (u_Object obj)\<rparr>)
      | _ \<Rightarrow> (Some (ApiFailure ''path not supported''), obj))"

text \<open>
  The instance, given the value of \<open>CLUSTER_DOMAIN\<close>, the embedded files and, in place
  of a YAML parser, a table from document text to the object it parses to.
\<close>

definition fakeEnv ::
  "string \<Rightarrow> (string \<times> string) list \<Rightarrow> (string \<times> Unstructured) list \<Rightarrow> Cluster Env" where
  "fakeEnv clusterDomain files parsed =
     \<lparr>Get_MaasPlatform = fake_Get_MaasPlatform,
      Get_Tier = fake_Get_Tier,
      List_MaasPlatform = fake_List_MaasPlatform,
      List_Tier = fake_List_Tier,
      Get_ConfigMap = fake_Get_ConfigMap,
      Create_ConfigMap = fake_Create_ConfigMap,
      Update_ConfigMap = fake_Update_ConfigMap,
      Get_Unstructured = fake_Get_Unstructured,
      Create_Unstructured = fake_Create_Unstructured,
      Update_Unstructured = fake_Update_Unstructured,
      Status_Update = fake_Status_Update,
      Getenv = (\<lambda>name. if name = ''CLUSTER_DOMAIN'' then clusterDomain else []),
      ReadFile = (\<lambda>path. case map_of files path of
                            None \<Rightarrow> Inl (ApiFailure ''file does not exist'')
                          | Some data \<Rightarrow> Inr data),
      Unmarshal = (\<lambda>doc. case map_of parsed doc of
                           None \<Rightarrow> Inl (ApiFailure ''cannot unmarshal'')
                         | Some obj \<Rightarrow> Inr obj),
      SetControllerReference = fake_SetControllerReference,
      SetNestedMap = fake_SetNestedMap\<rparr>"

definition emptyCluster :: Cluster where
  "emptyCluster =
     \<lparr>cl_platforms = [], cl_tiers = [], cl_configMaps = [], cl_objects = [], cl_faults = [],
      cl_calls = []\<rparr>"

section \<open>Reference definitions used in the statements\<close>

text \<open>The text whose lines are the given ones: the inverse of \<open>Split\<close>.\<close>

fun Join :: "string list \<Rightarrow> string" where
  "Join [] = []"
| "Join (l # ls) = l @ (if ls \<noteq> [] then [CHR 0x0A] else []) @ Join ls"

text \<open>
  The substitution as the specification words it: reading the template from the left,
  every \<open>${CLUSTER_DOMAIN}\<close> and every bare \<open>$CLUSTER_DOMAIN\<close> is replaced by the value
  and every other character is copied.
\<close>

function spec_substitute :: "string \<Rightarrow> string \<Rightarrow> string" where
  "spec_substitute v t =
     (if t = [] then []
      else if prefix ''${CLUSTER_DOMAIN}'' t
        then v @ spec_substitute v (drop (length ''${CLUSTER_DOMAIN}'') t)
      else if prefix ''$CLUSTER_DOMAIN'' t
        then v @ spec_substitute v (drop (length ''$CLUSTER_DOMAIN'') t)
      else hd t # spec_substitute v (tl t))"
  by pat_completeness auto
termination
  by (relation "measure (\<lambda>(v, t). length t)") auto

declare spec_substitute.simps [simp del]

text \<open>No line of a document after its first line is a separator line.\<close>

definition noInnerSeparator :: "string \<Rightarrow> bool" where
  "noInnerSeparator d = (\<forall>l\<in>set (tl (Split d)). \<not> isSeparator l)"

text \<open>
  The documents as the text between separator lines.  A document begins with a line,
  whatever that line is, and runs up to the next separator line, which is left out; the
  next document begins after it.  Every line keeps its newline; only the last line of
  the input has none.  A document with no text is not returned.
\<close>

definition unlines :: "string list \<Rightarrow> string" where
  "unlines ls = concat (map (\<lambda>l. l @ [CHR 0x0A]) ls)"

function documentsBetween :: "string list \<Rightarrow> string list" where
  "documentsBetween [] = []"
| "documentsBetween (l # ls) =
     (if dropWhile (\<lambda>x. \<not> isSeparator x) ls = []
      then [Join (l # ls)]
      else unlines (l # takeWhile (\<lambda>x. \<not> isSeparator x) ls)
           # documentsBetween (tl (dropWhile (\<lambda>x. \<not> isSeparator x) ls)))"
  by pat_completeness auto
termination
proof (relation "measure length")
  show "wf (measure length)" by simp
next
  fix l :: string and ls :: "string list"
  have "length (dropWhile (\<lambda>x. \<not> isSeparator x) ls) \<le> length ls"
    by (rule length_dropWhile_le)
  then have "length (tl (dropWhile (\<lambda>x. \<not> isSeparator x) ls)) \<le> length ls"
    by simp
  then show "(tl (dropWhile (\<lambda>x. \<not> isSeparator x) ls), l # ls) \<in> measure length"
    by simp
qed

declare documentsBetween.simps [simp del]

section \<open>Example data\<close>

text \<open>
  A platform, the tiers of the specification's aggregation example (\<open>A\<close> with a request
  limit, \<open>B\<close> with a request and a token limit), a second tier named \<open>A\<close> in another
  namespace, and a few rendered objects, for running the theorems on the in-memory
  cluster.
\<close>

definition exPlatform :: MaasPlatform where
  "exPlatform = \<lparr>mp_Name = ''platform'', mp_Namespace = ''maas-api'', mp_UID = ''uid-1''\<rparr>"

definition exOtherPlatform :: MaasPlatform where
  "exOtherPlatform = \<lparr>mp_Name = ''other'', mp_Namespace = ''team-b'', mp_UID = ''uid-2''\<rparr>"

definition exTierA :: Tier where
  "exTierA =
     \<lparr>tier_Name = ''A'', tier_GenerateName = [], tier_Namespace = ''maas-api'',
      tier_Spec = \<lparr>TargetRef = \<lparr>ref_Name = ''platform'', ref_Namespace = []\<rparr>,
                   RateLimits = Some \<lparr>rl_Limit = 5, rl_Window = ''2m'', rl_Counters = []\<rparr>,
                   TokenRateLimits = None, Models = []\<rparr>\<rparr>"

definition exTierB :: Tier where
  "exTierB =
     \<lparr>tier_Name = ''B'', tier_GenerateName = [], tier_Namespace = ''maas-api'',
      tier_Spec = \<lparr>TargetRef = \<lparr>ref_Name = ''platform'', ref_Namespace = []\<rparr>,
                   RateLimits = Some \<lparr>rl_Limit = 20, rl_Window = ''2m'', rl_Counters = []\<rparr>,
                   TokenRateLimits =
                     Some \<lparr>trl_Limit = 50000, trl_Window = ''1m'', trl_Counters = []\<rparr>,
                   Models = []\<rparr>\<rparr>"


definition exService :: Unstructured where
  "exService = emptyUnstructured\<lparr>u_APIVersion := ''v1'', u_Kind := ''Service'',
                 u_Name := ''maas-api'', u_Namespace := ''maas-api''\<rparr>"

definition exGateway :: Unstructured where
  "exGateway = emptyUnstructured\<lparr>u_APIVersion := ''gateway.networking.k8s.io/v1'',
                 u_Kind := ''Gateway'', u_Name := ''maas-default-gateway'',
                 u_Namespace := ''openshift-ingress''\<rparr>"

definition exAuthPolicy :: Unstructured where
  "exAuthPolicy = emptyUnstructured\<lparr>u_APIVersion := ''kuadrant.io/v1'',
                 u_Kind := ''AuthPolicy'', u_Name := ''gateway-auth-policy'',
                 u_Namespace := ''openshift-ingress''\<rparr>"

definition exClaim :: Unstructured where
  "exClaim = emptyUnstructured\<lparr>u_APIVersion := ''v1'', u_Kind := ''PersistentVolumeClaim'',
                 u_Name := ''models'', u_Namespace := ''maas-api'',
                 u_Object := fmap_of_list [(''spec'', VMap (fmap_of_list
                   [(''storageClassName'', VString ''fast'')]))]\<rparr>"

definition exStoredClaim :: Unstructured where
  "exStoredClaim = exClaim\<lparr>u_ResourceVersion := ''41'',
                 u_Object := fmap_of_list [(''spec'', VMap (fmap_of_list
                   [(''storageClassName'', VString ''slow'')]))]\<rparr>"

definition exFiles :: "(string \<times> string) list" where
  "exFiles =
     [(''manifests/maas-api/resources.yaml'', ''kind: Service\<newline>''),
      (''manifests/networking/resources.yaml'', ''kind: Gateway\<newline>''),
      (''manifests/policies/gateway-auth-policy.yaml'', ''kind: AuthPolicy\<newline>'')]"

definition exParsed :: "(string \<times> Unstructured) list" where
  "exParsed =
     [(''kind: Service\<newline>'', exService),
      (''kind: Gateway\<newline>'', exGateway),
      (''kind: AuthPolicy\<newline>'', exAuthPolicy)]"

definition exEnv :: "Cluster Env" where
  "exEnv = fakeEnv ''apps.test'' exFiles exParsed"

definition exKey :: ObjectKey where
  "exKey = \<lparr>key_Namespace = ''maas-api'', key_Name = ''platform''\<rparr>"

definition exCluster :: Cluster where
  "exCluster = emptyCluster\<lparr>cl_platforms := [exPlatform]\<rparr>"

text \<open>The same cluster, with the creation of the gateway made to fail.\<close>

definition exClusterGatewayDenied :: Cluster where
  "exClusterGatewayDenied =
     exCluster\<lparr>cl_faults :=
       [((DoCreate, ''Gateway'', ''openshift-ingress'', ''maas-default-gateway''),
         ApiFailure ''webhook denied'')]\<rparr>"

text \<open>The cluster in which the claim \<open>exClaim\<close> renders to is already stored.\<close>

definition exClusterWithClaim :: Cluster where
  "exClusterWithClaim = exCluster\<lparr>cl_objects := [exStoredClaim]\<rparr>"

text \<open>
  Two platforms and the tiers \<open>A\<close> and \<open>B\<close>, which both target the first; a stored
  mapping ConfigMap; and the same cluster with the creation of the ConfigMap, or of the
  RateLimitPolicy, made to fail.
\<close>

definition exStoredConfigMap :: ConfigMap where
  "exStoredConfigMap =
     emptyConfigMap\<lparr>cm_Name := ''tier-to-group-mapping'', cm_Namespace := ''maas-api'',
                    cm_Data := fmap_of_list [(''tiers'', ''tiers: |\<newline>'')],
                    cm_ResourceVersion := ''12''\<rparr>"

definition exTierCluster :: Cluster where
  "exTierCluster =
     emptyCluster\<lparr>cl_platforms := [exPlatform, exOtherPlatform],
                   cl_tiers := [exTierA, exTierB]\<rparr>"

definition exTierClusterStored :: Cluster where
  "exTierClusterStored = exTierCluster\<lparr>cl_configMaps := [exStoredConfigMap]\<rparr>"

definition exTierClusterConfigMapFails :: Cluster where
  "exTierClusterConfigMapFails =
     exTierCluster\<lparr>cl_faults :=
       [((DoCreate, ''ConfigMap'', ''maas-api'', ''tier-to-group-mapping''),
         ApiFailure ''quota exceeded'')]\<rparr>"

definition exTierClusterPolicyFails :: Cluster where
  "exTierClusterPolicyFails =
     exTierCluster\<lparr>cl_faults :=
       [((DoCreate, ''RateLimitPolicy'', ''openshift-ingress'', ''gateway-rate-limits''),
         ApiFailure ''no such resource type'')]\<rparr>"

text \<open>
  For the run after a deletion: two tiers that declare no limit, one for each platform
  (the policy \<open>spec\<close> built from them holds only maps and strings); the ConfigMap the
  builder derives from each of them alone, and the policy it derives from tiers without
  limits; a client whose first \<open>Create\<close> of a ConfigMap times out and whose later ones
  go through; the cluster in which a third tier has just been deleted; and the cluster in
  which the only tier of the only platform has just been deleted, the artifacts derived
  from it still stored.
\<close>

definition exTierFree :: Tier where
  "exTierFree =
     \<lparr>tier_Name = ''free'', tier_GenerateName = [], tier_Namespace = ''maas-api'',
      tier_Spec = \<lparr>TargetRef = \<lparr>ref_Name = ''platform'', ref_Namespace = []\<rparr>,
                   RateLimits = None, TokenRateLimits = None, Models = []\<rparr>\<rparr>"

definition exTierTeam :: Tier where
  "exTierTeam =
     \<lparr>tier_Name = ''premium-team'', tier_GenerateName = [], tier_Namespace = ''team-b'',
      tier_Spec = \<lparr>TargetRef = \<lparr>ref_Name = ''other'', ref_Namespace = ''team-b''\<rparr>,
                   RateLimits = None, TokenRateLimits = None, Models = []\<rparr>\<rparr>"

definition exFreeConfigMap :: ConfigMap where
  "exFreeConfigMap =
     emptyConfigMap\<lparr>cm_Name := ''tier-to-group-mapping'', cm_Namespace := ''maas-api'',
       cm_Labels := fmap_of_list [(''app.kubernetes.io/managed-by'', ''maas-operator''),
                                  (''maas-platform'', ''platform.maas-api'')],
       cm_Data := fmap_of_list [(''tiers'',
         ''tiers: |\<newline>  # Tier: free\<newline>  - name: free\<newline>    level: 0\<newline>    groups:\<newline>      - tier-free-users\<newline>      - system:authenticated\<newline>\<newline>'')]\<rparr>"

definition exTeamConfigMap :: ConfigMap where
  "exTeamConfigMap =
     emptyConfigMap\<lparr>cm_Name := ''tier-to-group-mapping'', cm_Namespace := ''maas-api'',
       cm_Labels := fmap_of_list [(''app.kubernetes.io/managed-by'', ''maas-operator''),
                                  (''maas-platform'', ''other.team-b'')],
       cm_Data := fmap_of_list [(''tiers'',
         ''tiers: |\<newline>  # Tier: premium-team\<newline>  - name: premium-team\<newline>    level: 1\<newline>    groups:\<newline>      - tier-premium-team-users\<newline>      - system:authenticated\<newline>\<newline>'')]\<rparr>"

definition exEmptyPolicy :: "string \<Rightarrow> string \<Rightarrow> string \<Rightarrow> Unstructured" where
  "exEmptyPolicy apiVersion kind policyName =
     emptyUnstructured\<lparr>u_APIVersion := apiVersion, u_Kind := kind, u_Name := policyName,
       u_Namespace := ''openshift-ingress'',
       u_Object := fmap_of_list [(''spec'', VMap (fmap_of_list
         [(''targetRef'', VMap (fmap_of_list
             [(''group'', VString ''gateway.networking.k8s.io''),
              (''kind'', VString ''Gateway''),
              (''name'', VString ''maas-default-gateway'')])),
          (''limits'', VMap fmempty)]))]\<rparr>"

definition exFlakyEnv :: "Cluster Env" where
  "exFlakyEnv =
     exEnv\<lparr>Create_ConfigMap :=
       (\<lambda>cm s.
          if (DoCreate, ''ConfigMap'', cm_Namespace cm, cm_Name cm) \<in> set (cl_calls s)
          then fake_Create_ConfigMap cm s
          else (Some (ApiFailure ''timeout''),
                logCall (DoCreate, ''ConfigMap'', cm_Namespace cm, cm_Name cm) s))\<rparr>"

definition exClusterAfterDeletion :: Cluster where
  "exClusterAfterDeletion =
     emptyCluster\<lparr>cl_platforms := [exPlatform, exOtherPlatform],
                   cl_tiers := [exTierFree, exTierTeam]\<rparr>"

definition exClusterLastTierDeleted :: Cluster where
  "exClusterLastTierDeleted =
     emptyCluster\<lparr>cl_platforms := [exPlatform], cl_tiers := [],
       cl_configMaps := [exFreeConfigMap],
       cl_objects :=
         [exEmptyPolicy ''kuadrant.io/v1'' ''RateLimitPolicy'' ''gateway-rate-limits'',
          exEmptyPolicy ''kuadrant.io/v1alpha1'' ''TokenRateLimitPolicy''
            ''gateway-token-rate-limits'']\<rparr>"

text \<open>
  The two policies as stored with the rules of the tiers \<open>A\<close> and \<open>B\<close> of the first
  platform, the cluster that holds them next to the mapping ConfigMap, and that cluster
  once every tier is gone.
\<close>

definition exStoredRateLimitPolicy :: Unstructured where
  "exStoredRateLimitPolicy =
     emptyUnstructured\<lparr>u_APIVersion := ''kuadrant.io/v1'', u_Kind := ''RateLimitPolicy'',
       u_Name := ''gateway-rate-limits'', u_Namespace := ''openshift-ingress'',
       u_ResourceVersion := ''7'',
       u_Object := fmap_of_list
         [(''spec'', VMap (policySpec (rateLimitsLoop [exTierA, exTierB] fmempty)))]\<rparr>"

definition exStoredTokenRateLimitPolicy :: Unstructured where
  "exStoredTokenRateLimitPolicy =
     emptyUnstructured\<lparr>u_APIVersion := ''kuadrant.io/v1alpha1'',
       u_Kind := ''TokenRateLimitPolicy'', u_Name := ''gateway-token-rate-limits'',
       u_Namespace := ''openshift-ingress'', u_ResourceVersion := ''8'',
       u_Object := fmap_of_list
         [(''spec'', VMap (policySpec (tokenRateLimitsLoop [exTierA, exTierB] fmempty)))]\<rparr>"

definition exTierClusterWithPolicies :: Cluster where
  "exTierClusterWithPolicies =
     exTierClusterStored\<lparr>cl_objects :=
       [exStoredRateLimitPolicy, exStoredTokenRateLimitPolicy]\<rparr>"

definition exClusterTiersGone :: Cluster where
  "exClusterTiersGone = exTierClusterWithPolicies\<lparr>cl_tiers := []\<rparr>"

text \<open>
  For the variable resolution: the cluster's ingress configuration with a domain, an
  instance without the override, and one whose override still holds an unexpanded
  variable.
\<close>

definition exIngress :: Unstructured where
  "exIngress = emptyUnstructured\<lparr>u_APIVersion := ''config.openshift.io/v1'',
                 u_Kind := ''Ingress'', u_Name := ''cluster'',
                 u_Object := fmap_of_list [(''spec'', VMap (fmap_of_list
                   [(''domain'', VString ''apps.cluster.example'')]))]\<rparr>"

definition exClusterWithIngress :: Cluster where
  "exClusterWithIngress = emptyCluster\<lparr>cl_objects := [exIngress]\<rparr>"

definition exEnvNoOverride :: "Cluster Env" where
  "exEnvNoOverride = fakeEnv [] exFiles exParsed"

definition exEnvUnexpanded :: "Cluster Env" where
  "exEnvUnexpanded = fakeEnv ''apps.$CLUSTER_DOMAIN'' exFiles exParsed"

section \<open>Properties of the document splitter\<close>

lemma not_isSeparator_Nil: "\<not> isSeparator []"
  by code_simp

lemma Split_not_Nil: "Split s \<noteq> []"
  by (induction s) (auto split: list.splits)

lemma splitLoop_no_empty:
  "[] \<notin> set documents \<Longrightarrow> splitLoop lines cur documents = (c, d) \<Longrightarrow> [] \<notin> set d"
proof (induction lines arbitrary: cur documents)
  case Nil
  then show ?case by simp
next
  case (Cons l ls)
  show ?case
  proof (cases "isSeparator l \<and> length cur > 0")
    case True
    with Cons.prems have "splitLoop ls [] (documents @ [cur]) = (c, d)"
      and "[] \<notin> set (documents @ [cur])" by auto
    then show ?thesis using Cons.IH by blast
  next
    case False
    with Cons.prems have
      "splitLoop ls (cur @ l @ (if ls \<noteq> [] then [CHR 0x0A] else [])) documents = (c, d)"
      by (simp split: if_splits)
    with Cons.prems(1) show ?thesis using Cons.IH by blast
  qed
qed

text \<open>
  C10.  The splitter is total (it is a terminating recursive function of its input) and
  infallible: for every input the returned error is nil, and no returned document has
  length zero.
\<close>

theorem splitYAMLDocuments_infallible_nonempty:
  "snd (splitYAMLDocuments data) = None \<and> [] \<notin> set (fst (splitYAMLDocuments data))"
proof -
  obtain c d where cd: "splitLoop (Split data) [] [] = (c, d)"
    by (cases "splitLoop (Split data) [] []")
  from splitLoop_no_empty [OF _ cd] have "[] \<notin> set d" by simp
  with cd show ?thesis by (simp add: splitYAMLDocuments_def)
qed


lemma Split_append_newline: "Split (a @ CHR 0x0A # b) = Split a @ Split b"
proof (induction a)
  case Nil
  show ?case by simp
next
  case (Cons c a)
  obtain l ls where "Split a = l # ls"
    using Split_not_Nil [of a] by (cases "Split a") auto
  with Cons show ?case by simp
qed

lemma Split_no_newline: "CHR 0x0A \<notin> set l \<Longrightarrow> Split l = [l]"
  by (induction l) auto

lemma Split_lines_no_newline: "l \<in> set (Split s) \<Longrightarrow> CHR 0x0A \<notin> set l"
proof (induction s arbitrary: l)
  case Nil
  then show ?case by simp
next
  case (Cons c s)
  obtain x xs where sp: "Split s = x # xs"
    using Split_not_Nil [of s] by (cases "Split s") auto
  show ?case
  proof (cases "c = CHR 0x0A")
    case True
    with Cons show ?thesis by auto
  next
    case False
    with Cons.prems sp have "l = c # x \<or> l \<in> set xs" by auto
    with Cons.IH sp False show ?thesis by auto
  qed
qed

lemma Join_Split: "Join (Split s) = s"
proof (induction s)
  case Nil
  show ?case by simp
next
  case (Cons c s)
  obtain x xs where sp: "Split s = x # xs"
    using Split_not_Nil [of s] by (cases "Split s") auto
  with Cons show ?case by auto
qed

lemma splitLoop_subseq:
  "splitLoop lines cur documents = (c, d) \<Longrightarrow>
   subseq (concat d @ c) (concat documents @ cur @ Join lines)"
proof (induction lines arbitrary: cur documents)
  case Nil
  then show ?case by simp
next
  case (Cons l ls)
  show ?case
  proof (cases "isSeparator l \<and> length cur > 0")
    case True
    with Cons.prems have "splitLoop ls [] (documents @ [cur]) = (c, d)" by simp
    from Cons.IH [OF this]
    have "subseq (concat d @ c) ((concat documents @ cur) @ Join ls)" by simp
    also have "subseq \<dots> ((concat documents @ cur) @ (l @ (if ls \<noteq> [] then [CHR 0x0A] else [])) @ Join ls)"
      by (intro list_emb_append_mono subseq_order.order_refl list_emb_append2) 
    finally show ?thesis by simp
  next
    case False
    with Cons.prems have
      "splitLoop ls (cur @ l @ (if ls \<noteq> [] then [CHR 0x0A] else [])) documents = (c, d)"
      by (simp split: if_splits)
    from Cons.IH [OF this] show ?thesis by simp
  qed
qed

lemma noInnerSeparator_Nil: "noInnerSeparator []"
  by (simp add: noInnerSeparator_def)

lemma noInnerSeparator_first:
  assumes "CHR 0x0A \<notin> set l"
  shows "noInnerSeparator (l @ (if b then [CHR 0x0A] else []))"
proof (cases b)
  case True
  have "Split (l @ [CHR 0x0A]) = Split l @ Split []"
    using Split_append_newline [of l "[]"] by simp
  with assms True show ?thesis
    by (simp add: noInnerSeparator_def Split_no_newline not_isSeparator_Nil)
next
  case False
  with assms show ?thesis by (simp add: noInnerSeparator_def Split_no_newline)
qed

lemma noInnerSeparator_extend:
  assumes ok: "noInnerSeparator cur" and ne: "cur \<noteq> []" and nl: "last cur = CHR 0x0A"
    and l: "CHR 0x0A \<notin> set l" and ns: "\<not> isSeparator l"
  shows "noInnerSeparator (cur @ l @ (if b then [CHR 0x0A] else []))"
proof -
  from ne nl obtain c0 where cur: "cur = c0 @ [CHR 0x0A]"
    by (metis append_butlast_last_id)
  have s1: "Split cur = Split c0 @ [[]]"
    using Split_append_newline [of c0 "[]"] cur by simp
  have s2: "Split (l @ (if b then [CHR 0x0A] else [])) = (if b then [l, []] else [l])"
    using Split_append_newline [of l "[]"] l by (simp add: Split_no_newline)
  have "Split (cur @ l @ (if b then [CHR 0x0A] else []))
        = Split c0 @ Split (l @ (if b then [CHR 0x0A] else []))"
    using Split_append_newline [of c0 "l @ (if b then [CHR 0x0A] else [])"] cur by simp
  then have s3: "Split (cur @ l @ (if b then [CHR 0x0A] else []))
        = Split c0 @ (if b then [l, []] else [l])"
    using s2 by simp
  from ok s1 have "\<forall>x\<in>set (tl (Split c0)). \<not> isSeparator x"
    using Split_not_Nil [of c0] by (auto simp: noInnerSeparator_def)
  with s3 ns show ?thesis
    using Split_not_Nil [of c0] by (auto simp: noInnerSeparator_def not_isSeparator_Nil)
qed

lemma splitLoop_noInnerSeparator:
  assumes "\<forall>d\<in>set documents. noInnerSeparator d" and "noInnerSeparator cur"
    and "lines \<noteq> [] \<longrightarrow> cur = [] \<or> last cur = CHR 0x0A"
    and "\<forall>l\<in>set lines. CHR 0x0A \<notin> set l"
    and "splitLoop lines cur documents = (c, d)"
  shows "(\<forall>x\<in>set d. noInnerSeparator x) \<and> noInnerSeparator c"
  using assms
proof (induction lines arbitrary: cur documents)
  case Nil
  then show ?case by simp
next
  case (Cons l ls)
  from Cons.prems(4) have lnl: "CHR 0x0A \<notin> set l" and lsnl: "\<forall>l\<in>set ls. CHR 0x0A \<notin> set l"
    by auto
  from Cons.prems(3) have shape: "cur = [] \<or> last cur = CHR 0x0A" by simp
  show ?case
  proof (cases "isSeparator l \<and> length cur > 0")
    case True
    with Cons.prems(5) have run: "splitLoop ls [] (documents @ [cur]) = (c, d)" by simp
    have "\<forall>d\<in>set (documents @ [cur]). noInnerSeparator d"
      using Cons.prems(1,2) by auto
    from Cons.IH [OF this noInnerSeparator_Nil _ lsnl run] show ?thesis by simp
  next
    case False
    let ?cur = "cur @ l @ (if ls \<noteq> [] then [CHR 0x0A] else [])"
    from False Cons.prems(5) have run: "splitLoop ls ?cur documents = (c, d)"
      by (simp split: if_splits)
    have ok: "noInnerSeparator ?cur"
    proof (cases "cur = []")
      case True
      then show ?thesis using noInnerSeparator_first [OF lnl, of "ls \<noteq> []"] by simp
    next
      case ne: False
      with shape have "last cur = CHR 0x0A" by simp
      moreover from ne False have "\<not> isSeparator l" by simp
      ultimately show ?thesis
        using noInnerSeparator_extend [OF Cons.prems(2) ne _ lnl, of "ls \<noteq> []"] by simp
    qed
    have "ls \<noteq> [] \<longrightarrow> ?cur = [] \<or> last ?cur = CHR 0x0A" by simp
    from Cons.IH [OF Cons.prems(1) ok this lsnl run] show ?thesis .
  qed
qed

lemma splitLoop_first:
  assumes "documents \<noteq> [] \<or> cur \<noteq> []" and "splitLoop lines cur documents = (c, d)"
  shows "(d \<noteq> [] \<or> c \<noteq> []) \<and> prefix (hd (documents @ [cur])) (hd (d @ [c]))"
  using assms
proof (induction lines arbitrary: cur documents)
  case Nil
  then show ?case by auto
next
  case (Cons l ls)
  show ?case
  proof (cases "isSeparator l \<and> length cur > 0")
    case True
    with Cons.prems(2) have run: "splitLoop ls [] (documents @ [cur]) = (c, d)" by simp
    have "documents @ [cur] \<noteq> [] \<or> ([]::string) \<noteq> []" by simp
    from Cons.IH [OF this run]
    have "(d \<noteq> [] \<or> c \<noteq> []) \<and> prefix (hd ((documents @ [cur]) @ [[]])) (hd (d @ [c]))" .
    moreover have "hd ((documents @ [cur]) @ [[]]) = hd (documents @ [cur])"
      by (cases documents) auto
    ultimately show ?thesis by simp
  next
    case False
    let ?cur = "cur @ l @ (if ls \<noteq> [] then [CHR 0x0A] else [])"
    from False Cons.prems(2) have run: "splitLoop ls ?cur documents = (c, d)"
      by (simp split: if_splits)
    have l_ne: "cur = [] \<Longrightarrow> documents = [] \<Longrightarrow> False"
      using Cons.prems(1) by auto
    have pre: "documents \<noteq> [] \<or> ?cur \<noteq> []"
      using Cons.prems(1) by auto
    from Cons.IH [OF pre run]
    have res: "(d \<noteq> [] \<or> c \<noteq> []) \<and> prefix (hd (documents @ [?cur])) (hd (d @ [c]))" .
    have "prefix (hd (documents @ [cur])) (hd (documents @ [?cur]))"
      by (cases documents) auto
    with res show ?thesis
      using prefix_order.order_trans by blast
  qed
qed

lemma splitLoop_docs_prefix:
  "splitLoop lines cur (d0 @ documents) =
     (case splitLoop lines cur documents of (c, d) \<Rightarrow> (c, d0 @ d))"
  by (induction lines arbitrary: cur documents) auto

lemma splitLoop_append:
  "ys \<noteq> [] \<Longrightarrow>
   splitLoop (xs @ ys) cur documents =
     (case splitLoop (xs @ [[]]) cur documents of (c, d) \<Rightarrow> splitLoop ys c d)"
  by (induction xs arbitrary: cur documents) (auto simp: not_isSeparator_Nil)

lemma splitYAMLDocuments_at_separator:
  assumes sep: "isSeparator l" and nl: "CHR 0x0A \<notin> set l"
  shows "fst (splitYAMLDocuments (a @ [CHR 0x0A] @ l @ [CHR 0x0A] @ b)) =
           fst (splitYAMLDocuments (a @ [CHR 0x0A]))
           @ (if fst (splitLoop (Split (a @ [CHR 0x0A])) [] []) \<noteq> []
              then fst (splitYAMLDocuments b)
              else fst (splitYAMLDocuments (l @ [CHR 0x0A] @ b)))"
proof -
  obtain c d where cd: "splitLoop (Split a @ [[]]) [] [] = (c, d)"
    by (cases "splitLoop (Split a @ [[]]) [] []")
  obtain c' d' where cd': "splitLoop (Split b) [] [] = (c', d')"
    by (cases "splitLoop (Split b) [] []")
  obtain c'' d'' where cd'': "splitLoop (l # Split b) [] [] = (c'', d'')"
    by (cases "splitLoop (l # Split b) [] []")
  have sa: "Split (a @ [CHR 0x0A]) = Split a @ [[]]"
    using Split_append_newline [of a "[]"] by simp
  have slb: "Split (l @ [CHR 0x0A] @ b) = l # Split b"
    using Split_append_newline [of l b] nl by (simp add: Split_no_newline)
  have sall: "Split (a @ [CHR 0x0A] @ l @ [CHR 0x0A] @ b) = Split a @ (l # Split b)"
    using Split_append_newline [of a "l @ [CHR 0x0A] @ b"] slb by simp
  have run: "splitLoop (Split a @ (l # Split b)) [] [] = splitLoop (l # Split b) c d"
    using splitLoop_append [of "l # Split b" "Split a" "[]" "[]"] cd by simp
  show ?thesis
  proof (cases "c = []")
    case True
    have "splitLoop (l # Split b) [] d = (c'', d @ d'')"
      using splitLoop_docs_prefix [of "l # Split b" "[]" d "[]"] cd'' by simp
    with True run sall sa slb cd cd'' show ?thesis
      by (simp add: splitYAMLDocuments_def)
  next
    case False
    with sep have "splitLoop (l # Split b) c d = splitLoop (Split b) [] (d @ [c])" by simp
    also have "\<dots> = (c', (d @ [c]) @ d')"
      using splitLoop_docs_prefix [of "Split b" "[]" "d @ [c]" "[]"] cd' by simp
    finally have "splitLoop (l # Split b) c d = (c', (d @ [c]) @ d')" .
    with False run sall sa cd cd' show ?thesis
      by (simp add: splitYAMLDocuments_def)
  qed
qed

lemma splitLoop_open:
  "cur \<noteq> [] \<Longrightarrow>
   splitLoop ls cur docs =
     (if dropWhile (\<lambda>x. \<not> isSeparator x) ls = []
      then (cur @ Join ls, docs)
      else splitLoop (tl (dropWhile (\<lambda>x. \<not> isSeparator x) ls)) []
             (docs @ [cur @ unlines (takeWhile (\<lambda>x. \<not> isSeparator x) ls)]))"
proof (induction ls arbitrary: cur)
  case Nil
  then show ?case by simp
next
  case (Cons l ls)
  show ?case
  proof (cases "isSeparator l")
    case True
    with Cons.prems show ?thesis by (simp add: unlines_def)
  next
    case False
    let ?cur = "cur @ l @ (if ls \<noteq> [] then [CHR 0x0A] else [])"
    have ne: "?cur \<noteq> []" using Cons.prems by simp
    have step: "splitLoop (l # ls) cur docs = splitLoop ls ?cur docs"
      using False by simp
    have dw: "dropWhile (\<lambda>x. \<not> isSeparator x) (l # ls) = dropWhile (\<lambda>x. \<not> isSeparator x) ls"
      and tw: "takeWhile (\<lambda>x. \<not> isSeparator x) (l # ls)
               = l # takeWhile (\<lambda>x. \<not> isSeparator x) ls"
      using False by simp_all
    show ?thesis
    proof (cases "dropWhile (\<lambda>x. \<not> isSeparator x) ls = []")
      case True
      have "splitLoop ls ?cur docs = (?cur @ Join ls, docs)"
        using Cons.IH [OF ne] True by (simp del: dropWhile_eq_Nil_conv)
      moreover have "?cur @ Join ls = cur @ Join (l # ls)" by simp
      ultimately show ?thesis
        unfolding step dw using True by (simp del: dropWhile_eq_Nil_conv)
    next
      case rest: False
      then have lsne: "ls \<noteq> []" by auto
      have "splitLoop ls ?cur docs
            = splitLoop (tl (dropWhile (\<lambda>x. \<not> isSeparator x) ls)) []
                (docs @ [?cur @ unlines (takeWhile (\<lambda>x. \<not> isSeparator x) ls)])"
        using Cons.IH [OF ne] rest by (simp del: dropWhile_eq_Nil_conv)
      moreover have "?cur @ unlines (takeWhile (\<lambda>x. \<not> isSeparator x) ls)
                     = cur @ unlines (l # takeWhile (\<lambda>x. \<not> isSeparator x) ls)"
        using lsne by (simp add: unlines_def)
      ultimately show ?thesis
        unfolding step dw tw using rest by (simp del: dropWhile_eq_Nil_conv)
    qed
  qed
qed

lemma flush_documentsBetween:
  "(case splitLoop lines [] docs of
      (c, d) \<Rightarrow> (if length c > 0 then d @ [c] else d))
   = docs @ filter (\<lambda>d. d \<noteq> []) (documentsBetween lines)"
proof (induction lines arbitrary: docs rule: length_induct)
  case (1 lines)
  note IH = "1.IH" [rule_format]
  show ?case
  proof (cases lines)
    case Nil
    then show ?thesis by (simp add: documentsBetween.simps)
  next
    case (Cons l ls)
    show ?thesis
    proof (cases "ls = []")
      case True
      with Cons show ?thesis by (simp add: documentsBetween.simps)
    next
      case False
      let ?cur = "l @ [CHR 0x0A]"
      have step: "splitLoop lines [] docs = splitLoop ls ?cur docs"
        using Cons False by simp
      have ne: "?cur \<noteq> []" by simp
      show ?thesis
      proof (cases "dropWhile (\<lambda>x. \<not> isSeparator x) ls = []")
        case True
        have a: "splitLoop ls ?cur docs = (?cur @ Join ls, docs)"
          using splitLoop_open [OF ne, of ls docs] True by (simp del: dropWhile_eq_Nil_conv)
        have b: "documentsBetween lines = [Join (l # ls)]"
          using Cons True by (simp add: documentsBetween.simps del: dropWhile_eq_Nil_conv)
        have c: "Join (l # ls) = ?cur @ Join ls" using False by simp
        show ?thesis unfolding step a b c by simp
      next
        case rest: False
        let ?rest = "tl (dropWhile (\<lambda>x. \<not> isSeparator x) ls)"
        let ?doc = "?cur @ unlines (takeWhile (\<lambda>x. \<not> isSeparator x) ls)"
        have a: "splitLoop ls ?cur docs = splitLoop ?rest [] (docs @ [?doc])"
          using splitLoop_open [OF ne, of ls docs] rest by (simp del: dropWhile_eq_Nil_conv)
        have b: "documentsBetween lines
                 = unlines (l # takeWhile (\<lambda>x. \<not> isSeparator x) ls) # documentsBetween ?rest"
          using Cons rest by (simp add: documentsBetween.simps del: dropWhile_eq_Nil_conv)
        have c: "unlines (l # takeWhile (\<lambda>x. \<not> isSeparator x) ls) = ?doc"
          by (simp add: unlines_def)
        have "length (dropWhile (\<lambda>x. \<not> isSeparator x) ls) \<le> length ls"
          by (rule length_dropWhile_le)
        then have "length ?rest < length lines" using Cons by simp
        from IH [OF this, of "docs @ [?doc]"] show ?thesis
          unfolding step a b c by simp
      qed
    qed
  qed
qed

lemma splitYAMLDocuments_documentsBetween:
  "fst (splitYAMLDocuments data) = filter (\<lambda>d. d \<noteq> []) (documentsBetween (Split data))"
proof -
  obtain c d where cd: "splitLoop (Split data) [] [] = (c, d)"
    by (cases "splitLoop (Split data) [] []")
  from flush_documentsBetween [of "Split data" "[]"] cd show ?thesis
    by (simp add: splitYAMLDocuments_def)
qed

lemma splitYAMLDocuments_no_separator:
  assumes "\<forall>l\<in>set (Split data). \<not> isSeparator l" and "data \<noteq> []"
  shows "fst (splitYAMLDocuments data) = [data]"
proof -
  obtain l ls where sp: "Split data = l # ls"
    using Split_not_Nil [of data] by (cases "Split data") auto
  with assms(1) have "dropWhile (\<lambda>x. \<not> isSeparator x) ls = []" by simp
  then have "documentsBetween (Split data) = [Join (Split data)]"
    unfolding sp by (simp add: documentsBetween.simps del: dropWhile_eq_Nil_conv)
  with assms(2) show ?thesis
    by (simp add: splitYAMLDocuments_documentsBetween Join_Split)
qed

lemma splitYAMLDocuments_last_separator:
  assumes sep: "isSeparator l" and nl: "CHR 0x0A \<notin> set l"
  shows "fst (splitYAMLDocuments (a @ [CHR 0x0A] @ l)) =
           fst (splitYAMLDocuments (a @ [CHR 0x0A]))
           @ (if fst (splitLoop (Split (a @ [CHR 0x0A])) [] []) \<noteq> [] then [] else [l])"
proof -
  obtain c d where cd: "splitLoop (Split a @ [[]]) [] [] = (c, d)"
    by (cases "splitLoop (Split a @ [[]]) [] []")
  have sa: "Split (a @ [CHR 0x0A]) = Split a @ [[]]"
    using Split_append_newline [of a "[]"] by simp
  have sall: "Split (a @ [CHR 0x0A] @ l) = Split a @ [l]"
    using Split_append_newline [of a l] nl by (simp add: Split_no_newline)
  have run: "splitLoop (Split a @ [l]) [] [] = splitLoop [l] c d"
    using splitLoop_append [of "[l]" "Split a" "[]" "[]"] cd by simp
  from sep have lne: "l \<noteq> []" using not_isSeparator_Nil by auto
  show ?thesis
  proof (cases "c = []")
    case True
    with run sall sa cd lne show ?thesis by (simp add: splitYAMLDocuments_def)
  next
    case False
    with run sall sa cd sep show ?thesis by (simp add: splitYAMLDocuments_def)
  qed
qed

text \<open>
  C6.  The documents are the text between separator lines, in input order, with
  nothing changed: the result is exactly \<open>documentsBetween\<close> of the input's lines
  without its empty texts, where a document begins with a line, runs up to the next
  separator line, which is left out, and keeps every newline.  So an input with no
  separator line comes back as the one document it is (and the empty input as none);
  around a separator line the text before it and the text after it are split on their
  own, the line closing the open document or, when none is open, being the first line
  of the next one; a separator on the last line closes the open document and adds
  nothing.  The concatenation of the documents is a subsequence of the input, and inside
  a document no line after the first is a separator line.  When the input begins with
  a separator line no empty document is emitted for what precedes it: the first
  document returned begins with that line.
\<close>

theorem splitYAMLDocuments_documents:
  "subseq (concat (fst (splitYAMLDocuments data))) data
   \<and> (\<forall>d\<in>set (fst (splitYAMLDocuments data)). \<forall>l\<in>set (tl (Split d)). \<not> isSeparator l)
   \<and> (isSeparator l \<and> CHR 0x0A \<notin> set l \<longrightarrow>
        fst (splitYAMLDocuments (a @ [CHR 0x0A] @ l @ [CHR 0x0A] @ b)) =
          fst (splitYAMLDocuments (a @ [CHR 0x0A]))
          @ (if fst (splitLoop (Split (a @ [CHR 0x0A])) [] []) \<noteq> []
             then fst (splitYAMLDocuments b)
             else fst (splitYAMLDocuments (l @ [CHR 0x0A] @ b))))
   \<and> (isSeparator (hd (Split data)) \<longrightarrow>
        fst (splitYAMLDocuments data) \<noteq> []
        \<and> prefix (hd (Split data)) (hd (fst (splitYAMLDocuments data))))
   \<and> fst (splitYAMLDocuments data)
       = filter (\<lambda>d. d \<noteq> []) (documentsBetween (Split data))
   \<and> ((\<forall>l\<in>set (Split data). \<not> isSeparator l) \<and> data \<noteq> [] \<longrightarrow>
        fst (splitYAMLDocuments data) = [data])
   \<and> fst (splitYAMLDocuments []) = []
   \<and> (isSeparator l \<and> CHR 0x0A \<notin> set l \<longrightarrow>
        fst (splitYAMLDocuments (a @ [CHR 0x0A] @ l)) =
          fst (splitYAMLDocuments (a @ [CHR 0x0A]))
          @ (if fst (splitLoop (Split (a @ [CHR 0x0A])) [] []) \<noteq> [] then [] else [l]))"
proof -
  have exact: "fst (splitYAMLDocuments data)
       = filter (\<lambda>d. d \<noteq> []) (documentsBetween (Split data))"
    by (rule splitYAMLDocuments_documentsBetween)
  have whole: "fst (splitYAMLDocuments data) = [data]"
    if "\<forall>l\<in>set (Split data). \<not> isSeparator l" "data \<noteq> []"
    using that by (rule splitYAMLDocuments_no_separator)
  have empty: "fst (splitYAMLDocuments []) = []"
    by (simp add: splitYAMLDocuments_def)
  obtain c d where cd: "splitLoop (Split data) [] [] = (c, d)"
    by (cases "splitLoop (Split data) [] []")
  have docs: "fst (splitYAMLDocuments data) = (if c \<noteq> [] then d @ [c] else d)"
    using cd by (simp add: splitYAMLDocuments_def)
  have order: "subseq (concat (fst (splitYAMLDocuments data))) data"
    using splitLoop_subseq [OF cd] docs by (cases "c = []") (simp_all add: Join_Split)
  have "(\<forall>x\<in>set d. noInnerSeparator x) \<and> noInnerSeparator c"
    using splitLoop_noInnerSeparator [of "[]" "[]" "Split data" c d] cd Split_lines_no_newline
    by (simp add: noInnerSeparator_Nil)
  then have inner: "\<forall>d\<in>set (fst (splitYAMLDocuments data)). \<forall>l\<in>set (tl (Split d)). \<not> isSeparator l"
    using docs by (auto simp: noInnerSeparator_def)
  have leading: "fst (splitYAMLDocuments data) \<noteq> [] \<and>
      prefix (hd (Split data)) (hd (fst (splitYAMLDocuments data)))"
    if sep: "isSeparator (hd (Split data))"
  proof -
    obtain x xs where sp: "Split data = x # xs"
      using Split_not_Nil [of data] by (cases "Split data") auto
    with sep have x: "isSeparator x" by simp
    then have xne: "x \<noteq> []" using not_isSeparator_Nil by auto
    let ?cur = "x @ (if xs \<noteq> [] then [CHR 0x0A] else [])"
    have run: "splitLoop xs ?cur [] = (c, d)" using cd sp by simp
    have "[] \<noteq> ([]::string list) \<or> ?cur \<noteq> []" using xne by simp
    from splitLoop_first [OF this run]
    have res: "(d \<noteq> [] \<or> c \<noteq> []) \<and> prefix ?cur (hd (d @ [c]))" by simp
    then have "prefix x (hd (d @ [c]))"
      using prefix_order.order_trans [of x ?cur] by auto
    with res docs sp show ?thesis
      by (cases "c = []") (auto simp: hd_append)
  qed
  show ?thesis
    apply (intro conjI impI)
          apply (rule order)
         apply (rule inner)
        apply (elim conjE, rule splitYAMLDocuments_at_separator; assumption)
       apply (erule leading [THEN conjunct1])
      apply (erule leading [THEN conjunct2])
     apply (rule exact)
    apply (elim conjE, rule whole; assumption)
    apply (rule empty)
    apply (elim conjE, rule splitYAMLDocuments_last_separator; assumption)
    done
qed

theorem splitYAMLDocuments_documents_witness:
  "isSeparator ''---'' \<and> CHR 0x0A \<notin> set ''---''
   \<and> isSeparator (hd (Split ''---\<newline>kind: A\<newline>  ---\<newline>---\<newline>kind: B''))
   \<and> fst (splitYAMLDocuments ''---\<newline>kind: A\<newline>  ---\<newline>---\<newline>kind: B'')
       = [''---\<newline>kind: A\<newline>'', ''---\<newline>kind: B'']
   \<and> fst (splitYAMLDocuments ''kind: A\<newline>---\<newline>kind: B'')
       = fst (splitYAMLDocuments ''kind: A\<newline>'') @ fst (splitYAMLDocuments ''kind: B'')
   \<and> tl (Split ''---\<newline>kind: A\<newline>'') = [''kind: A'', []]
   \<and> \<not> isSeparator ''kind: A''
   \<and> documentsBetween (Split ''---\<newline>kind: A\<newline>  ---\<newline>---\<newline>kind: B'')
       = [''---\<newline>kind: A\<newline>'', ''---\<newline>kind: B'']
   \<and> fst (splitYAMLDocuments ''kind: A\<newline>name: x'') = [''kind: A\<newline>name: x'']
   \<and> fst (splitYAMLDocuments ''kind: A\<newline>---'') = [''kind: A\<newline>'']
   \<and> fst (splitYAMLDocuments ''kind: A\<newline>---\<newline>'') = [''kind: A\<newline>'']"
proof -
  have between: "documentsBetween (Split ''---\<newline>kind: A\<newline>  ---\<newline>---\<newline>kind: B'')
       = [''---\<newline>kind: A\<newline>'', ''---\<newline>kind: B'']" by code_simp
  have nosep: "\<not> isSeparator ''kind: A''" "\<not> isSeparator ''name: x''" by code_simp+
  have lines: "Split ''kind: A\<newline>name: x'' = [''kind: A'', ''name: x'']" by code_simp
  have whole: "fst (splitYAMLDocuments ''kind: A\<newline>name: x'') = [''kind: A\<newline>name: x'']"
    using splitYAMLDocuments_documents [where data = "''kind: A\<newline>name: x''",
        THEN conjunct2, THEN conjunct2, THEN conjunct2, THEN conjunct2, THEN conjunct2,
        THEN conjunct1]
      nosep lines
    by simp
  have last1: "fst (splitYAMLDocuments ''kind: A\<newline>---'') = [''kind: A\<newline>'']"
    by code_simp
  have last2: "fst (splitYAMLDocuments ''kind: A\<newline>---\<newline>'') = [''kind: A\<newline>'']"
    by code_simp
  have inner: "tl (Split ''---\<newline>kind: A\<newline>'') = [''kind: A'', []]" by simp
  have sep: "isSeparator ''---''" by code_simp
  have nl: "CHR 0x0A \<notin> set ''---''" by simp
  have open_doc: "fst (splitLoop (Split (''kind: A'' @ [CHR 0x0A])) [] []) \<noteq> []"
    by code_simp
  have hd_sep: "isSeparator (hd (Split ''---\<newline>kind: A\<newline>  ---\<newline>---\<newline>kind: B''))"
    by code_simp
  have docs: "fst (splitYAMLDocuments ''---\<newline>kind: A\<newline>  ---\<newline>---\<newline>kind: B'')
       = [''---\<newline>kind: A\<newline>'', ''---\<newline>kind: B'']"
    by code_simp
  from splitYAMLDocuments_documents
         [of "''---\<newline>kind: A\<newline>  ---\<newline>---\<newline>kind: B''" "''---''" "''kind: A''" "''kind: B''"]
       sep nl open_doc hd_sep docs inner between whole last1 last2
  show ?thesis by simp
qed


section \<open>Properties of the platform controller\<close>

text \<open>
  C9.  When the lookup of the platform reports not-found, \<open>Reconcile\<close> returns nil and
  the state is the one the lookup left: no namespace, manifest or status call is made.
  Any other error of the lookup, and an error while the required namespaces are
  ensured, is returned before any group runs.  When the platform is found and the
  namespaces are in place, the three manifest groups run in the order API-serving
  resources, networking resources, gateway authentication policy, each on the state
  the one before left; the first group that
  fails ends the call with its error and with the state that group left, so no later
  group and no status update runs and nothing done before is undone; the status update
  runs only after all three succeeded.
\<close>

theorem Reconcile_absent_and_group_order:
  "(Get_MaasPlatform r req s = (Inl e0, s1) \<and> isNotFound e0 \<longrightarrow>
      MaasPlatformReconciler_Reconcile r req s = (None, s1))
   \<and> (Get_MaasPlatform r req s = (Inl e0, s1) \<and> \<not> isNotFound e0 \<longrightarrow>
      MaasPlatformReconciler_Reconcile r req s = (Some e0, s1))
   \<and> (Get_MaasPlatform r req s = (Inr maasPlatform, s1) \<and> ensureNamespaces r s1 = (Some e, s2) \<longrightarrow>
      MaasPlatformReconciler_Reconcile r req s = (Some e, s2))
   \<and> (Get_MaasPlatform r req s = (Inr maasPlatform, s1) \<and> ensureNamespaces r s1 = (None, s2) \<longrightarrow>
        (deployEmbeddedManifest r ''manifests/maas-api/resources.yaml'' maasPlatform True s2
           = (Some e, s3) \<longrightarrow>
         MaasPlatformReconciler_Reconcile r req s = (Some e, s3))
      \<and> (deployEmbeddedManifest r ''manifests/maas-api/resources.yaml'' maasPlatform True s2
           = (None, s3) \<longrightarrow>
           (deployEmbeddedManifest r ''manifests/networking/resources.yaml'' maasPlatform False s3
              = (Some e, s4) \<longrightarrow>
            MaasPlatformReconciler_Reconcile r req s = (Some e, s4))
         \<and> (deployEmbeddedManifest r ''manifests/networking/resources.yaml'' maasPlatform False s3
              = (None, s4) \<longrightarrow>
              (deployEmbeddedManifest r ''manifests/policies/gateway-auth-policy.yaml''
                 maasPlatform False s4 = (Some e, s5) \<longrightarrow>
               MaasPlatformReconciler_Reconcile r req s = (Some e, s5))
            \<and> (deployEmbeddedManifest r ''manifests/policies/gateway-auth-policy.yaml''
                 maasPlatform False s4 = (None, s5) \<longrightarrow>
               MaasPlatformReconciler_Reconcile r req s = updateStatus r maasPlatform s5))))"
proof -
  have tail: "(case updateStatus r maasPlatform s5 of
                 (Some err, s6) \<Rightarrow> (Some err, s6) | (None, s6) \<Rightarrow> (None, s6))
              = updateStatus r maasPlatform s5" for s5
    by (simp split: prod.splits option.splits)
  show ?thesis
    by (simp add: MaasPlatformReconciler_Reconcile_def tail)
qed

theorem Reconcile_absent_and_group_order_witness:
  "MaasPlatformReconciler_Reconcile exEnv exKey emptyCluster
     = (None, logCall (DoGet, ''MaasPlatform'', ''maas-api'', ''platform'') emptyCluster)
   \<and> fst (MaasPlatformReconciler_Reconcile exEnv exKey exClusterGatewayDenied)
       = Some (Errorf ''failed to apply resource Gateway/maas-default-gateway''
                 (ApiFailure ''webhook denied''))
   \<and> cl_calls (snd (MaasPlatformReconciler_Reconcile exEnv exKey exClusterGatewayDenied))
       = [(DoGet, ''MaasPlatform'', ''maas-api'', ''platform''),
          (DoGet, ''Namespace'', [], ''maas-api''),
          (DoCreate, ''Namespace'', [], ''maas-api''),
          (DoGet, ''Namespace'', [], ''kuadrant-system''),
          (DoCreate, ''Namespace'', [], ''kuadrant-system''),
          (DoGet, ''Service'', ''maas-api'', ''maas-api''),
          (DoCreate, ''Service'', ''maas-api'', ''maas-api''),
          (DoGet, ''Gateway'', ''openshift-ingress'', ''maas-default-gateway''),
          (DoCreate, ''Gateway'', ''openshift-ingress'', ''maas-default-gateway'')]
   \<and> map u_Kind (cl_objects (snd (MaasPlatformReconciler_Reconcile exEnv exKey
                                    exClusterGatewayDenied)))
       = [''Namespace'', ''Namespace'', ''Service'']
   \<and> MaasPlatformReconciler_Reconcile exEnv exKey exCluster
       = updateStatus exEnv exPlatform
           (snd (deployEmbeddedManifest exEnv ''manifests/policies/gateway-auth-policy.yaml''
              exPlatform False
              (snd (deployEmbeddedManifest exEnv ''manifests/networking/resources.yaml''
                 exPlatform False
                 (snd (deployEmbeddedManifest exEnv ''manifests/maas-api/resources.yaml''
                    exPlatform True
                    (snd (ensureNamespaces exEnv
                       (snd (Get_MaasPlatform exEnv exKey exCluster))))))))))
   \<and> map (\<lambda>c. (fst c, fst (snd c)))
         (cl_calls (snd (MaasPlatformReconciler_Reconcile exEnv exKey exCluster)))
       = [(DoGet, ''MaasPlatform''), (DoGet, ''Namespace''), (DoCreate, ''Namespace''),
          (DoGet, ''Namespace''), (DoCreate, ''Namespace''),
          (DoGet, ''Service''), (DoCreate, ''Service''),
          (DoGet, ''Gateway''), (DoCreate, ''Gateway''),
          (DoGet, ''AuthPolicy''), (DoCreate, ''AuthPolicy''),
          (DoStatusUpdate, ''MaasPlatform'')]"
proof -
  let ?absent = "logCall (DoGet, ''MaasPlatform'', ''maas-api'', ''platform'') emptyCluster"
  have get0: "Get_MaasPlatform exEnv exKey emptyCluster = (Inl NotFound, ?absent)"
    by code_simp
  have absent: "MaasPlatformReconciler_Reconcile exEnv exKey emptyCluster = (None, ?absent)"
    using Reconcile_absent_and_group_order
            [where r = exEnv and req = exKey and s = emptyCluster and ?e0.0 = NotFound
               and ?s1.0 = ?absent] get0
    by simp
  let ?s1 = "snd (Get_MaasPlatform exEnv exKey exCluster)"
  let ?s2 = "snd (ensureNamespaces exEnv ?s1)"
  let ?s3 = "snd (deployEmbeddedManifest exEnv ''manifests/maas-api/resources.yaml''
                    exPlatform True ?s2)"
  let ?s4 = "snd (deployEmbeddedManifest exEnv ''manifests/networking/resources.yaml''
                    exPlatform False ?s3)"
  let ?s5 = "snd (deployEmbeddedManifest exEnv ''manifests/policies/gateway-auth-policy.yaml''
                    exPlatform False ?s4)"
  have h1: "Get_MaasPlatform exEnv exKey exCluster = (Inr exPlatform, ?s1)" by code_simp
  have h2: "ensureNamespaces exEnv ?s1 = (None, ?s2)" by code_simp
  have h3: "deployEmbeddedManifest exEnv ''manifests/maas-api/resources.yaml''
              exPlatform True ?s2 = (None, ?s3)" by code_simp
  have h4: "deployEmbeddedManifest exEnv ''manifests/networking/resources.yaml''
              exPlatform False ?s3 = (None, ?s4)" by code_simp
  have h5: "deployEmbeddedManifest exEnv ''manifests/policies/gateway-auth-policy.yaml''
              exPlatform False ?s4 = (None, ?s5)" by code_simp
  have present: "MaasPlatformReconciler_Reconcile exEnv exKey exCluster
                   = updateStatus exEnv exPlatform ?s5"
    using Reconcile_absent_and_group_order
            [where r = exEnv and req = exKey and s = exCluster and ?s1.0 = ?s1
               and maasPlatform = exPlatform and ?s2.0 = ?s2 and ?s3.0 = ?s3
               and ?s4.0 = ?s4 and ?s5.0 = ?s5] h1 h2 h3 h4 h5
    by simp
  have denied: "fst (MaasPlatformReconciler_Reconcile exEnv exKey exClusterGatewayDenied)
       = Some (Errorf ''failed to apply resource Gateway/maas-default-gateway''
                 (ApiFailure ''webhook denied''))"
    by code_simp
  have calls: "cl_calls (snd (MaasPlatformReconciler_Reconcile exEnv exKey exClusterGatewayDenied))
       = [(DoGet, ''MaasPlatform'', ''maas-api'', ''platform''),
          (DoGet, ''Namespace'', [], ''maas-api''),
          (DoCreate, ''Namespace'', [], ''maas-api''),
          (DoGet, ''Namespace'', [], ''kuadrant-system''),
          (DoCreate, ''Namespace'', [], ''kuadrant-system''),
          (DoGet, ''Service'', ''maas-api'', ''maas-api''),
          (DoCreate, ''Service'', ''maas-api'', ''maas-api''),
          (DoGet, ''Gateway'', ''openshift-ingress'', ''maas-default-gateway''),
          (DoCreate, ''Gateway'', ''openshift-ingress'', ''maas-default-gateway'')]"
    by code_simp
  have kept: "map u_Kind (cl_objects (snd (MaasPlatformReconciler_Reconcile exEnv exKey
                                    exClusterGatewayDenied)))
       = [''Namespace'', ''Namespace'', ''Service'']"
    by code_simp
  have all_calls: "map (\<lambda>c. (fst c, fst (snd c)))
         (cl_calls (snd (MaasPlatformReconciler_Reconcile exEnv exKey exCluster)))
       = [(DoGet, ''MaasPlatform''), (DoGet, ''Namespace''), (DoCreate, ''Namespace''),
          (DoGet, ''Namespace''), (DoCreate, ''Namespace''),
          (DoGet, ''Service''), (DoCreate, ''Service''),
          (DoGet, ''Gateway''), (DoCreate, ''Gateway''),
          (DoGet, ''AuthPolicy''), (DoCreate, ''AuthPolicy''),
          (DoStatusUpdate, ''MaasPlatform'')]"
    by code_simp
  from absent present denied calls kept all_calls show ?thesis
    by (intro conjI)
qed


text \<open>
  C8.  For an object of kind \<open>PersistentVolumeClaim\<close>: when the lookup by its identity
  succeeds, the loop body ends with nil in the state the lookup left, so neither
  \<open>Update\<close> nor \<open>Create\<close> is called for it and the stored object stays as it is, and the
  pass goes on with the next document; when the lookup, and the one that
  \<open>applyUnstructured\<close> repeats, report not-found, the object (with the owner reference
  where one is set) is handed to \<open>Create\<close>, whose outcome is the outcome for the object.
\<close>

theorem deployObject_PersistentVolumeClaim:
  assumes kind: "u_Kind obj = ''PersistentVolumeClaim''"
    and look: "Get_Unstructured r \<lparr>key_Namespace = u_Namespace obj, key_Name = u_Name obj\<rparr>
                 (emptyUnstructured\<lparr>u_APIVersion := u_APIVersion obj, u_Kind := u_Kind obj\<rparr>) s
               = ((err, existing), s1)"
  shows "(err = None \<longrightarrow>
            deployObject r maasPlatform skipConfigMap obj s = (None, s1)
            \<and> (doc \<noteq> [] \<and> Unmarshal r doc = Inr obj \<longrightarrow>
                 deployDocuments r maasPlatform skipConfigMap (doc # documents) s
                 = deployDocuments r maasPlatform skipConfigMap documents s1))
         \<and> (IsNotFound err
             \<and> obj' = (if u_Namespace obj \<noteq> [] \<and> u_Namespace obj = mp_Namespace maasPlatform
                       then snd (SetControllerReference r maasPlatform obj) else obj)
             \<and> Get_Unstructured r \<lparr>key_Namespace = u_Namespace obj', key_Name = u_Name obj'\<rparr>
                  (emptyUnstructured\<lparr>u_APIVersion := u_APIVersion obj', u_Kind := u_Kind obj'\<rparr>) s1
                = ((err', current), s2)
             \<and> IsNotFound err' \<longrightarrow>
            deployObject r maasPlatform skipConfigMap obj s
            = (case Create_Unstructured r obj' s2 of
                 (Some e, s3) \<Rightarrow>
                   (Some (Errorf (''failed to apply resource '' @ u_Kind obj' @ ''/'' @ u_Name obj')
                            e), s3)
               | (None, s3) \<Rightarrow> (None, s3)))"
proof -
  have found: "deployObject r maasPlatform skipConfigMap obj s = (None, s1)" if "err = None"
    using that kind look by (simp add: deployObject_def)
  have absent: "deployObject r maasPlatform skipConfigMap obj s
                  = setOwnerAndApply r maasPlatform obj s1" if "IsNotFound err"
  proof -
    from that obtain e where "err = Some e" "isNotFound e" by (cases err) auto
    with kind look show ?thesis by (simp add: deployObject_def)
  qed
  have created: "deployObject r maasPlatform skipConfigMap obj s
            = (case Create_Unstructured r obj' s2 of
                 (Some e, s3) \<Rightarrow>
                   (Some (Errorf (''failed to apply resource '' @ u_Kind obj' @ ''/'' @ u_Name obj')
                            e), s3)
               | (None, s3) \<Rightarrow> (None, s3))"
    if nf: "IsNotFound err"
      and o: "obj' = (if u_Namespace obj \<noteq> [] \<and> u_Namespace obj = mp_Namespace maasPlatform
                       then snd (SetControllerReference r maasPlatform obj) else obj)"
      and look2: "Get_Unstructured r \<lparr>key_Namespace = u_Namespace obj', key_Name = u_Name obj'\<rparr>
                  (emptyUnstructured\<lparr>u_APIVersion := u_APIVersion obj', u_Kind := u_Kind obj'\<rparr>) s1
                = ((err', current), s2)"
      and nf2: "IsNotFound err'"
  proof -
    have "applyUnstructured r obj' s1 = Create_Unstructured r obj' s2"
      using look2 nf2 by (simp add: applyUnstructured_def)
    then have "setOwnerAndApply r maasPlatform obj s1
            = (case Create_Unstructured r obj' s2 of
                 (Some e, s3) \<Rightarrow>
                   (Some (Errorf (''failed to apply resource '' @ u_Kind obj' @ ''/'' @ u_Name obj')
                            e), s3)
               | (None, s3) \<Rightarrow> (None, s3))"
      unfolding setOwnerAndApply_def o by (simp add: Let_def)
    with absent [OF nf] show ?thesis by simp
  qed
  have loop: "deployDocuments r maasPlatform skipConfigMap (doc # documents) s
                 = deployDocuments r maasPlatform skipConfigMap documents s1"
    if "err = None" "doc \<noteq> []" "Unmarshal r doc = Inr obj"
    using that found by simp
  from found created loop show ?thesis by blast
qed

theorem deployObject_PersistentVolumeClaim_witness:
  "u_Kind exClaim = ''PersistentVolumeClaim''
   \<and> deployObject exEnv exPlatform True exClaim exClusterWithClaim
       = (None, logCall (DoGet, ''PersistentVolumeClaim'', ''maas-api'', ''models'')
                  exClusterWithClaim)
   \<and> cl_objects (snd (deployObject exEnv exPlatform True exClaim exClusterWithClaim))
       = [exStoredClaim]
   \<and> cl_calls (snd (deployObject exEnv exPlatform True exClaim exClusterWithClaim))
       = [(DoGet, ''PersistentVolumeClaim'', ''maas-api'', ''models'')]
   \<and> fst (deployObject exEnv exPlatform True exClaim exCluster) = None
   \<and> cl_calls (snd (deployObject exEnv exPlatform True exClaim exCluster))
       = [(DoGet, ''PersistentVolumeClaim'', ''maas-api'', ''models''),
          (DoGet, ''PersistentVolumeClaim'', ''maas-api'', ''models''),
          (DoCreate, ''PersistentVolumeClaim'', ''maas-api'', ''models'')]
   \<and> cl_objects (snd (deployObject exEnv exPlatform True exClaim exCluster))
       = [snd (fake_SetControllerReference exPlatform exClaim)]"
proof -
  let ?s1 = "logCall (DoGet, ''PersistentVolumeClaim'', ''maas-api'', ''models'')
               exClusterWithClaim"
  have kind: "u_Kind exClaim = ''PersistentVolumeClaim''" by code_simp
  have look: "Get_Unstructured exEnv
                \<lparr>key_Namespace = u_Namespace exClaim, key_Name = u_Name exClaim\<rparr>
                (emptyUnstructured\<lparr>u_APIVersion := u_APIVersion exClaim,
                                   u_Kind := u_Kind exClaim\<rparr>) exClusterWithClaim
              = ((None, exStoredClaim), ?s1)"
    by code_simp
  have skip: "deployObject exEnv exPlatform True exClaim exClusterWithClaim = (None, ?s1)"
    using deployObject_PersistentVolumeClaim [OF kind look] by simp
  have objs: "cl_objects ?s1 = [exStoredClaim]" by code_simp
  have calls: "cl_calls ?s1 = [(DoGet, ''PersistentVolumeClaim'', ''maas-api'', ''models'')]"
    by code_simp
  have c1: "fst (deployObject exEnv exPlatform True exClaim exCluster) = None" by code_simp
  have c2: "cl_calls (snd (deployObject exEnv exPlatform True exClaim exCluster))
       = [(DoGet, ''PersistentVolumeClaim'', ''maas-api'', ''models''),
          (DoGet, ''PersistentVolumeClaim'', ''maas-api'', ''models''),
          (DoCreate, ''PersistentVolumeClaim'', ''maas-api'', ''models'')]" by code_simp
  have c3: "cl_objects (snd (deployObject exEnv exPlatform True exClaim exCluster))
       = [snd (fake_SetControllerReference exPlatform exClaim)]" by code_simp
  from kind skip objs calls c1 c2 c3 show ?thesis by simp
qed


text \<open>
  C2 as stated fails in its last part: a rendered object in another namespace than the
  platform's is created exactly as rendered, here with no label at all, where the claim
  has labels naming the owner attached.
\<close>

theorem deployObject_cross_namespace_counterexample:
  "u_Namespace exGateway \<noteq> mp_Namespace exPlatform
   \<and> fst (deployObject exEnv exPlatform False exGateway exCluster) = None
   \<and> cl_objects (snd (deployObject exEnv exPlatform False exGateway exCluster)) = [exGateway]
   \<and> u_Labels exGateway = fmempty
   \<and> u_OwnerReferences exGateway = []"
  by code_simp

text \<open>
  C2, as amended.  For a rendered object that is neither the skipped ConfigMap nor a
  PersistentVolumeClaim: when its namespace is non-empty and equals the platform's, the
  object goes through \<open>SetControllerReference\<close> (whose error is ignored) and what that
  call left is what \<open>Create\<close> or \<open>Update\<close> receives; when its namespace differs or is
  empty, \<open>Create\<close> receives the object exactly as rendered and \<open>Update\<close> receives it with
  only the resource version filled in: no owner reference is attached, and no label
  either.
\<close>

theorem deployObject_owner_reference:
  assumes applied: "\<not> (skipConfigMap \<and> u_Kind obj = ''ConfigMap''
                       \<and> u_Name obj = ''tier-to-group-mapping'')"
      "u_Kind obj \<noteq> ''PersistentVolumeClaim''"
    and owned: "obj' = (if u_Namespace obj \<noteq> [] \<and> u_Namespace obj = mp_Namespace maasPlatform
                        then snd (SetControllerReference r maasPlatform obj) else obj)"
    and look: "Get_Unstructured r \<lparr>key_Namespace = u_Namespace obj', key_Name = u_Name obj'\<rparr>
                 (emptyUnstructured\<lparr>u_APIVersion := u_APIVersion obj', u_Kind := u_Kind obj'\<rparr>) s
               = ((err, current), s1)"
  shows "(u_Namespace obj = [] \<or> u_Namespace obj \<noteq> mp_Namespace maasPlatform \<longrightarrow> obj' = obj)
       \<and> (IsNotFound err \<longrightarrow>
            deployObject r maasPlatform skipConfigMap obj s
            = (case Create_Unstructured r obj' s1 of
                 (Some e, s2) \<Rightarrow>
                   (Some (Errorf (''failed to apply resource '' @ u_Kind obj' @ ''/'' @ u_Name obj')
                            e), s2)
               | (None, s2) \<Rightarrow> (None, s2)))
       \<and> (err = None \<longrightarrow>
            deployObject r maasPlatform skipConfigMap obj s
            = (case Update_Unstructured r
                      (obj'\<lparr>u_ResourceVersion := u_ResourceVersion current\<rparr>) s1 of
                 (Some e, s2) \<Rightarrow>
                   (Some (Errorf (''failed to apply resource '' @ u_Kind obj' @ ''/'' @ u_Name obj')
                            e), s2)
               | (None, s2) \<Rightarrow> (None, s2)))"
proof -
  have dep: "deployObject r maasPlatform skipConfigMap obj s
             = (case applyUnstructured r obj' s of
                  (Some e, s2) \<Rightarrow>
                    (Some (Errorf (''failed to apply resource '' @ u_Kind obj' @ ''/''
                                    @ u_Name obj') e), s2)
                | (None, s2) \<Rightarrow> (None, s2))"
    using applied unfolding deployObject_def setOwnerAndApply_def owned
    by (auto simp: Let_def)
  have cross: "obj' = obj"
    if "u_Namespace obj = [] \<or> u_Namespace obj \<noteq> mp_Namespace maasPlatform"
    using that owned by auto
  have create: "applyUnstructured r obj' s = Create_Unstructured r obj' s1" if "IsNotFound err"
    using that look by (simp add: applyUnstructured_def)
  have update: "applyUnstructured r obj' s
                = Update_Unstructured r (obj'\<lparr>u_ResourceVersion := u_ResourceVersion current\<rparr>) s1"
    if "err = None"
    using that look by (simp add: applyUnstructured_def)
  from dep cross create update show ?thesis by simp
qed

theorem deployObject_owner_reference_witness:
  "deployObject exEnv exPlatform True exService exCluster
     = (case Create_Unstructured exEnv (snd (fake_SetControllerReference exPlatform exService))
              (logCall (DoGet, ''Service'', ''maas-api'', ''maas-api'') exCluster) of
          (Some e, s2) \<Rightarrow> (Some (Errorf ''failed to apply resource Service/maas-api'' e), s2)
        | (None, s2) \<Rightarrow> (None, s2))
   \<and> u_OwnerReferences (snd (fake_SetControllerReference exPlatform exService))
       = [\<lparr>or_APIVersion = ''myapp.io.odh.maas/v1alpha1'', or_Kind = ''MaasPlatform'',
           or_Name = ''platform'', or_UID = ''uid-1'', or_Controller = True\<rparr>]
   \<and> deployObject exEnv exPlatform True exGateway exCluster
     = (case Create_Unstructured exEnv exGateway
              (logCall (DoGet, ''Gateway'', ''openshift-ingress'', ''maas-default-gateway'')
                 exCluster) of
          (Some e, s2) \<Rightarrow>
            (Some (Errorf ''failed to apply resource Gateway/maas-default-gateway'' e), s2)
        | (None, s2) \<Rightarrow> (None, s2))
   \<and> cl_objects (snd (deployObject exEnv exPlatform True exGateway exCluster)) = [exGateway]"
proof -
  let ?owned = "snd (fake_SetControllerReference exPlatform exService)"
  let ?s1 = "logCall (DoGet, ''Service'', ''maas-api'', ''maas-api'') exCluster"
  let ?t1 = "logCall (DoGet, ''Gateway'', ''openshift-ingress'', ''maas-default-gateway'')
               exCluster"
  have a1: "\<not> (True \<and> u_Kind exService = ''ConfigMap''
                \<and> u_Name exService = ''tier-to-group-mapping'')" by code_simp
  have a2: "u_Kind exService \<noteq> ''PersistentVolumeClaim''" by code_simp
  have a3: "?owned = (if u_Namespace exService \<noteq> []
                         \<and> u_Namespace exService = mp_Namespace exPlatform
                      then snd (SetControllerReference exEnv exPlatform exService)
                      else exService)" by code_simp
  have a4: "Get_Unstructured exEnv
              \<lparr>key_Namespace = u_Namespace ?owned, key_Name = u_Name ?owned\<rparr>
              (emptyUnstructured\<lparr>u_APIVersion := u_APIVersion ?owned, u_Kind := u_Kind ?owned\<rparr>)
              exCluster
            = ((Some NotFound, emptyUnstructured\<lparr>u_APIVersion := u_APIVersion ?owned,
                                                 u_Kind := u_Kind ?owned\<rparr>), ?s1)"
    by code_simp
  have n1: "u_Kind ?owned = ''Service''" "u_Name ?owned = ''maas-api''" by code_simp+
  have same: "deployObject exEnv exPlatform True exService exCluster
     = (case Create_Unstructured exEnv ?owned ?s1 of
          (Some e, s2) \<Rightarrow> (Some (Errorf ''failed to apply resource Service/maas-api'' e), s2)
        | (None, s2) \<Rightarrow> (None, s2))"
    using deployObject_owner_reference [OF a1 a2 a3 a4] n1
    by (simp split: prod.splits option.splits)
  have refs: "u_OwnerReferences ?owned
       = [\<lparr>or_APIVersion = ''myapp.io.odh.maas/v1alpha1'', or_Kind = ''MaasPlatform'',
           or_Name = ''platform'', or_UID = ''uid-1'', or_Controller = True\<rparr>]"
    by code_simp
  have b1: "\<not> (True \<and> u_Kind exGateway = ''ConfigMap''
                \<and> u_Name exGateway = ''tier-to-group-mapping'')" by code_simp
  have b2: "u_Kind exGateway \<noteq> ''PersistentVolumeClaim''" by code_simp
  have b3: "exGateway = (if u_Namespace exGateway \<noteq> []
                            \<and> u_Namespace exGateway = mp_Namespace exPlatform
                         then snd (SetControllerReference exEnv exPlatform exGateway)
                         else exGateway)" by code_simp
  have b4: "Get_Unstructured exEnv
              \<lparr>key_Namespace = u_Namespace exGateway, key_Name = u_Name exGateway\<rparr>
              (emptyUnstructured\<lparr>u_APIVersion := u_APIVersion exGateway,
                                 u_Kind := u_Kind exGateway\<rparr>)
              exCluster
            = ((Some NotFound, emptyUnstructured\<lparr>u_APIVersion := u_APIVersion exGateway,
                                                 u_Kind := u_Kind exGateway\<rparr>), ?t1)"
    by code_simp
  have n2: "u_Kind exGateway = ''Gateway''" "u_Name exGateway = ''maas-default-gateway''"
    by code_simp+
  have cross: "deployObject exEnv exPlatform True exGateway exCluster
     = (case Create_Unstructured exEnv exGateway ?t1 of
          (Some e, s2) \<Rightarrow>
            (Some (Errorf ''failed to apply resource Gateway/maas-default-gateway'' e), s2)
        | (None, s2) \<Rightarrow> (None, s2))"
    using deployObject_owner_reference [OF b1 b2 b3 b4] n2
    by (simp split: prod.splits option.splits)
  have stored: "cl_objects (snd (deployObject exEnv exPlatform True exGateway exCluster))
                  = [exGateway]"
    by code_simp
  from same refs cross stored show ?thesis by (intro conjI)
qed


section \<open>Properties of the tier controller\<close>

lemma reconcileAllLoop_append:
  "reconcileAllLoop r (pre @ items) s = reconcileAllLoop r items (reconcileAllLoop r pre s)"
  by (induction pre arbitrary: s) (auto split: prod.splits)

lemma reconcileAllLoop_step:
  "reconcileAllLoop r (pre @ mp # post) s
   = reconcileAllLoop r post (snd (reconcileMaasPlatformTiers r mp (reconcileAllLoop r pre s)))"
  by (simp add: reconcileAllLoop_append split: prod.splits)

lemma pass_list_fails:
  "List_Tier r s = (Inl err, s1) \<Longrightarrow> reconcileMaasPlatformTiers r mp s = (Some err, s1)"
  by (simp add: reconcileMaasPlatformTiers_def)

lemma pass_no_tier:
  "List_Tier r s = (Inr tiers, s1) \<Longrightarrow> filter (targets mp) tiers = [] \<Longrightarrow>
   reconcileMaasPlatformTiers r mp s = (None, s1)"
  by (simp add: reconcileMaasPlatformTiers_def)

lemma pass_some_tier:
  "List_Tier r s = (Inr tiers, s1) \<Longrightarrow> filter (targets mp) tiers \<noteq> [] \<Longrightarrow>
   reconcileMaasPlatformTiers r mp s =
     (case updateTierConfigMap r (filter (targets mp) tiers) mp s1 of
        (Some err, s2) \<Rightarrow> (Some err, s2)
      | (None, s2) \<Rightarrow>
          (case updateRateLimitPolicy r (filter (targets mp) tiers) mp s2 of
             (Some err, s3) \<Rightarrow> (Some err, s3)
           | (None, s3) \<Rightarrow> updateTokenRateLimitPolicy r (filter (targets mp) tiers) mp s3))"
  by (simp add: reconcileMaasPlatformTiers_def Let_def split: prod.splits option.splits)

text \<open>
  C5 as stated fails.  The tier \<open>free\<close> was the only tier of the only platform, and the
  ConfigMap and the two policies stored are the ones the pass derived from it.  After
  its deletion \<open>Reconcile\<close> finds the tier gone, lists the platform and runs its pass,
  which lists the tiers, finds none that targets the platform and returns: the derived
  artifacts are not recomputed, and the ConfigMap goes on listing the deleted tier.
\<close>

theorem Reconcile_last_tier_deleted_counterexample:
  "snd (reconcileMaasPlatformTiers exEnv exPlatform
          (emptyCluster\<lparr>cl_platforms := [exPlatform], cl_tiers := [exTierFree]\<rparr>))
     \<lparr>cl_tiers := [], cl_calls := []\<rparr>
   = exClusterLastTierDeleted
   \<and> fst (Get_Tier exEnv \<lparr>key_Namespace = ''maas-api'', key_Name = ''free''\<rparr>
            exClusterLastTierDeleted) = Inl NotFound
   \<and> fst (TierReconciler_Reconcile exEnv \<lparr>key_Namespace = ''maas-api'', key_Name = ''free''\<rparr>
            exClusterLastTierDeleted) = None
   \<and> cl_calls (snd (TierReconciler_Reconcile exEnv
                      \<lparr>key_Namespace = ''maas-api'', key_Name = ''free''\<rparr>
                      exClusterLastTierDeleted))
       = [(DoGet, ''Tier'', ''maas-api'', ''free''),
          (DoList, ''MaasPlatform'', [], []),
          (DoList, ''Tier'', [], [])]
   \<and> cl_configMaps (snd (TierReconciler_Reconcile exEnv
                           \<lparr>key_Namespace = ''maas-api'', key_Name = ''free''\<rparr>
                           exClusterLastTierDeleted))
       = [exFreeConfigMap]
   \<and> fmlookup (cm_Data exFreeConfigMap) ''tiers''
       = Some (''tiers: |\<newline>  # Tier: free\<newline>  - name: free\<newline>    level: 0\<newline>''
               @ ''    groups:\<newline>      - tier-free-users\<newline>''
               @ ''      - system:authenticated\<newline>\<newline>'')
   \<and> fmlookup (cm_Data exFreeConfigMap) ''tiers'' \<noteq> Some (tierMappingsLoop [] ''tiers: |\<newline>'')"
  by code_simp

text \<open>
  C5, as amended.  When the lookup of the tier reports not-found, \<open>Reconcile\<close> lists the
  platforms; a failed listing is returned, and otherwise the call returns nil in the
  state the loop over all listed platforms leaves, whatever the deleted tier referred to
  (nothing of the tier is known to the call).  The loop runs the pass of each listed
  platform, in list order, in the state the platforms before it left: the pass lists the
  tiers anew; when that listing fails, or when no listed tier targets the platform, the
  loop goes on from the state the listing left (nothing is read or written for that
  platform); otherwise the builders of the ConfigMap, the RateLimitPolicy and the
  TokenRateLimitPolicy are run in this order on the tiers that target the platform now,
  up to the first of them that fails.  Whatever error the pass of a platform returns is
  dropped, and the loop goes on with the platforms after it.  Errors are the values the
  calls return: a panic raised inside a call is outside this statement.
\<close>

theorem Reconcile_deleted_tier_runs_every_platform:
  assumes gone: "Get_Tier r req s = (Inl e, s1)" "isNotFound e"
  shows "(List_MaasPlatform r s1 = (Inl err, s2) \<longrightarrow>
            TierReconciler_Reconcile r req s = (Some err, s2))
       \<and> (List_MaasPlatform r s1 = (Inr items, s2) \<longrightarrow>
            TierReconciler_Reconcile r req s = (None, reconcileAllLoop r items s2)
          \<and> (items = pre @ mp # post \<longrightarrow>
               (List_Tier r (reconcileAllLoop r pre s2) = (Inl err, s3) \<longrightarrow>
                  reconcileAllLoop r items s2 = reconcileAllLoop r post s3)
             \<and> (List_Tier r (reconcileAllLoop r pre s2) = (Inr tiers, s3) \<longrightarrow>
                  (filter (targets mp) tiers = [] \<longrightarrow>
                     reconcileAllLoop r items s2 = reconcileAllLoop r post s3)
                \<and> (filter (targets mp) tiers \<noteq> [] \<longrightarrow>
                     (updateTierConfigMap r (filter (targets mp) tiers) mp s3 = (Some e1, s4) \<longrightarrow>
                        reconcileAllLoop r items s2 = reconcileAllLoop r post s4)
                   \<and> (updateTierConfigMap r (filter (targets mp) tiers) mp s3 = (None, s4) \<longrightarrow>
                        (updateRateLimitPolicy r (filter (targets mp) tiers) mp s4 = (Some e2, s5) \<longrightarrow>
                           reconcileAllLoop r items s2 = reconcileAllLoop r post s5)
                      \<and> (updateRateLimitPolicy r (filter (targets mp) tiers) mp s4 = (None, s5) \<longrightarrow>
                           reconcileAllLoop r items s2
                           = reconcileAllLoop r post
                               (snd (updateTokenRateLimitPolicy r (filter (targets mp) tiers)
                                       mp s5))))))))"
proof (intro conjI impI)
  assume "List_MaasPlatform r s1 = (Inl err, s2)"
  with gone show "TierReconciler_Reconcile r req s = (Some err, s2)"
    by (simp add: TierReconciler_Reconcile_def reconcileAllMaasPlatforms_def)
next
  assume "List_MaasPlatform r s1 = (Inr items, s2)"
  with gone show "TierReconciler_Reconcile r req s = (None, reconcileAllLoop r items s2)"
    by (simp add: TierReconciler_Reconcile_def reconcileAllMaasPlatforms_def)
next
  assume "items = pre @ mp # post" "List_Tier r (reconcileAllLoop r pre s2) = (Inl err, s3)"
  thus "reconcileAllLoop r items s2 = reconcileAllLoop r post s3"
    by (simp add: reconcileAllLoop_step pass_list_fails)
next
  assume "items = pre @ mp # post" "List_Tier r (reconcileAllLoop r pre s2) = (Inr tiers, s3)"
    "filter (targets mp) tiers = []"
  thus "reconcileAllLoop r items s2 = reconcileAllLoop r post s3"
    by (simp add: reconcileAllLoop_step pass_no_tier)
next
  assume "items = pre @ mp # post" "List_Tier r (reconcileAllLoop r pre s2) = (Inr tiers, s3)"
    "filter (targets mp) tiers \<noteq> []"
    "updateTierConfigMap r (filter (targets mp) tiers) mp s3 = (Some e1, s4)"
  thus "reconcileAllLoop r items s2 = reconcileAllLoop r post s4"
    by (simp add: reconcileAllLoop_step pass_some_tier)
next
  assume "items = pre @ mp # post" "List_Tier r (reconcileAllLoop r pre s2) = (Inr tiers, s3)"
    "filter (targets mp) tiers \<noteq> []"
    "updateTierConfigMap r (filter (targets mp) tiers) mp s3 = (None, s4)"
    "updateRateLimitPolicy r (filter (targets mp) tiers) mp s4 = (Some e2, s5)"
  thus "reconcileAllLoop r items s2 = reconcileAllLoop r post s5"
    by (simp add: reconcileAllLoop_step pass_some_tier)
next
  assume "items = pre @ mp # post" "List_Tier r (reconcileAllLoop r pre s2) = (Inr tiers, s3)"
    "filter (targets mp) tiers \<noteq> []"
    "updateTierConfigMap r (filter (targets mp) tiers) mp s3 = (None, s4)"
    "updateRateLimitPolicy r (filter (targets mp) tiers) mp s4 = (None, s5)"
  thus "reconcileAllLoop r items s2
        = reconcileAllLoop r post
            (snd (updateTokenRateLimitPolicy r (filter (targets mp) tiers) mp s5))"
    by (simp add: reconcileAllLoop_step pass_some_tier)
qed

theorem Reconcile_deleted_tier_runs_every_platform_witness:
  "TierReconciler_Reconcile exFlakyEnv \<lparr>key_Namespace = ''maas-api'', key_Name = ''gone''\<rparr>
     exClusterAfterDeletion
   = (None,
      reconcileAllLoop exFlakyEnv [exOtherPlatform]
        (snd (updateTierConfigMap exFlakyEnv [exTierFree] exPlatform
           (logCall (DoList, ''Tier'', [], [])
              (logCall (DoList, ''MaasPlatform'', [], [])
                 (logCall (DoGet, ''Tier'', ''maas-api'', ''gone'') exClusterAfterDeletion))))))
   \<and> fst (updateTierConfigMap exFlakyEnv [exTierFree] exPlatform
           (logCall (DoList, ''Tier'', [], [])
              (logCall (DoList, ''MaasPlatform'', [], [])
                 (logCall (DoGet, ''Tier'', ''maas-api'', ''gone'') exClusterAfterDeletion))))
       = Some (Errorf ''failed to create ConfigMap'' (ApiFailure ''timeout''))
   \<and> reconcileAllLoop exFlakyEnv [exPlatform, exOtherPlatform]
         (logCall (DoList, ''MaasPlatform'', [], [])
            (logCall (DoGet, ''Tier'', ''maas-api'', ''gone'') exClusterAfterDeletion))
       = snd (updateTokenRateLimitPolicy exFlakyEnv [exTierTeam] exOtherPlatform
           (snd (updateRateLimitPolicy exFlakyEnv [exTierTeam] exOtherPlatform
              (snd (updateTierConfigMap exFlakyEnv [exTierTeam] exOtherPlatform
                 (logCall (DoList, ''Tier'', [], [])
                    (reconcileAllLoop exFlakyEnv [exPlatform]
                       (logCall (DoList, ''MaasPlatform'', [], [])
                          (logCall (DoGet, ''Tier'', ''maas-api'', ''gone'')
                             exClusterAfterDeletion)))))))))
   \<and> cl_calls (snd (TierReconciler_Reconcile exFlakyEnv
                      \<lparr>key_Namespace = ''maas-api'', key_Name = ''gone''\<rparr>
                      exClusterAfterDeletion))
       = [(DoGet, ''Tier'', ''maas-api'', ''gone''),
          (DoList, ''MaasPlatform'', [], []),
          (DoList, ''Tier'', [], []),
          (DoGet, ''ConfigMap'', ''maas-api'', ''tier-to-group-mapping''),
          (DoGet, ''ConfigMap'', ''maas-api'', ''tier-to-group-mapping''),
          (DoCreate, ''ConfigMap'', ''maas-api'', ''tier-to-group-mapping''),
          (DoList, ''Tier'', [], []),
          (DoGet, ''ConfigMap'', ''maas-api'', ''tier-to-group-mapping''),
          (DoGet, ''ConfigMap'', ''maas-api'', ''tier-to-group-mapping''),
          (DoCreate, ''ConfigMap'', ''maas-api'', ''tier-to-group-mapping''),
          (DoGet, ''RateLimitPolicy'', ''openshift-ingress'', ''gateway-rate-limits''),
          (DoGet, ''RateLimitPolicy'', ''openshift-ingress'', ''gateway-rate-limits''),
          (DoCreate, ''RateLimitPolicy'', ''openshift-ingress'', ''gateway-rate-limits''),
          (DoGet, ''TokenRateLimitPolicy'', ''openshift-ingress'', ''gateway-token-rate-limits''),
          (DoGet, ''TokenRateLimitPolicy'', ''openshift-ingress'', ''gateway-token-rate-limits''),
          (DoCreate, ''TokenRateLimitPolicy'', ''openshift-ingress'',
             ''gateway-token-rate-limits'')]
   \<and> cl_configMaps (snd (TierReconciler_Reconcile exFlakyEnv
                           \<lparr>key_Namespace = ''maas-api'', key_Name = ''gone''\<rparr>
                           exClusterAfterDeletion))
       = [exTeamConfigMap]
   \<and> cl_objects (snd (TierReconciler_Reconcile exFlakyEnv
                        \<lparr>key_Namespace = ''maas-api'', key_Name = ''gone''\<rparr>
                        exClusterAfterDeletion))
       = [exEmptyPolicy ''kuadrant.io/v1'' ''RateLimitPolicy'' ''gateway-rate-limits'',
          exEmptyPolicy ''kuadrant.io/v1alpha1'' ''TokenRateLimitPolicy''
            ''gateway-token-rate-limits'']"
proof -
  let ?req = "\<lparr>key_Namespace = ''maas-api'', key_Name = ''gone''\<rparr>"
  let ?s1 = "logCall (DoGet, ''Tier'', ''maas-api'', ''gone'') exClusterAfterDeletion"
  let ?s2 = "logCall (DoList, ''MaasPlatform'', [], []) ?s1"
  let ?s3 = "logCall (DoList, ''Tier'', [], []) ?s2"
  let ?s4 = "snd (updateTierConfigMap exFlakyEnv [exTierFree] exPlatform ?s3)"
  let ?e = "Errorf ''failed to create ConfigMap'' (ApiFailure ''timeout'')"
  let ?t3 = "logCall (DoList, ''Tier'', [], []) (reconcileAllLoop exFlakyEnv [exPlatform] ?s2)"
  let ?t4 = "snd (updateTierConfigMap exFlakyEnv [exTierTeam] exOtherPlatform ?t3)"
  let ?t5 = "snd (updateRateLimitPolicy exFlakyEnv [exTierTeam] exOtherPlatform ?t4)"
  have gone: "Get_Tier exFlakyEnv ?req exClusterAfterDeletion = (Inl NotFound, ?s1)"
    by code_simp
  have nf: "isNotFound NotFound" by simp
  have listed: "List_MaasPlatform exFlakyEnv ?s1 = (Inr [exPlatform, exOtherPlatform], ?s2)"
    by code_simp
  have first: "[exPlatform, exOtherPlatform] = [] @ exPlatform # [exOtherPlatform]" by simp
  have tiers1: "List_Tier exFlakyEnv (reconcileAllLoop exFlakyEnv [] ?s2)
                  = (Inr [exTierFree, exTierTeam], ?s3)"
    by code_simp
  have match1: "filter (targets exPlatform) [exTierFree, exTierTeam] = [exTierFree]"
    by code_simp
  have some1: "filter (targets exPlatform) [exTierFree, exTierTeam] \<noteq> []"
    unfolding match1 by simp
  have cm1: "updateTierConfigMap exFlakyEnv (filter (targets exPlatform) [exTierFree, exTierTeam])
               exPlatform ?s3 = (Some ?e, ?s4)"
    unfolding match1 by code_simp
  note run1 = Reconcile_deleted_tier_runs_every_platform
                [OF gone nf, where ?s2.0 = ?s2 and items = "[exPlatform, exOtherPlatform]"
                   and pre = "[]" and mp = exPlatform and post = "[exOtherPlatform]"
                   and ?s3.0 = ?s3 and tiers = "[exTierFree, exTierTeam]"
                   and ?e1.0 = ?e and ?s4.0 = ?s4,
                 THEN conjunct2, THEN mp, OF listed]
  note res = run1 [THEN conjunct1]
  note step1 = run1 [THEN conjunct2, THEN mp, OF first, THEN conjunct2, THEN mp, OF tiers1,
                     THEN conjunct2, THEN mp, OF some1, THEN conjunct1, THEN mp, OF cm1]
  have a: "TierReconciler_Reconcile exFlakyEnv ?req exClusterAfterDeletion
           = (None, reconcileAllLoop exFlakyEnv [exOtherPlatform] ?s4)"
    using res step1 by (simp only:)
  have b: "fst (updateTierConfigMap exFlakyEnv [exTierFree] exPlatform ?s3) = Some ?e"
    by code_simp
  have second: "[exPlatform, exOtherPlatform] = [exPlatform] @ exOtherPlatform # []" by simp
  have tiers2: "List_Tier exFlakyEnv (reconcileAllLoop exFlakyEnv [exPlatform] ?s2)
                  = (Inr [exTierFree, exTierTeam], ?t3)"
    by code_simp
  have match2: "filter (targets exOtherPlatform) [exTierFree, exTierTeam] = [exTierTeam]"
    by code_simp
  have some2: "filter (targets exOtherPlatform) [exTierFree, exTierTeam] \<noteq> []"
    unfolding match2 by simp
  have cm2: "updateTierConfigMap exFlakyEnv
               (filter (targets exOtherPlatform) [exTierFree, exTierTeam]) exOtherPlatform ?t3
             = (None, ?t4)"
    unfolding match2 by code_simp
  have rl2: "updateRateLimitPolicy exFlakyEnv
               (filter (targets exOtherPlatform) [exTierFree, exTierTeam]) exOtherPlatform ?t4
             = (None, ?t5)"
    unfolding match2 by code_simp
  note step2 = Reconcile_deleted_tier_runs_every_platform
                [OF gone nf, where ?s2.0 = ?s2 and items = "[exPlatform, exOtherPlatform]"
                   and pre = "[exPlatform]" and mp = exOtherPlatform and post = "[]"
                   and ?s3.0 = ?t3 and tiers = "[exTierFree, exTierTeam]"
                   and ?s4.0 = ?t4 and ?s5.0 = ?t5,
                 THEN conjunct2, THEN mp, OF listed,
                 THEN conjunct2, THEN mp, OF second, THEN conjunct2, THEN mp, OF tiers2,
                 THEN conjunct2, THEN mp, OF some2, THEN conjunct2, THEN mp, OF cm2,
                 THEN conjunct2, THEN mp, OF rl2]
  have c: "reconcileAllLoop exFlakyEnv [exPlatform, exOtherPlatform] ?s2
           = snd (updateTokenRateLimitPolicy exFlakyEnv [exTierTeam] exOtherPlatform ?t5)"
    using step2 unfolding match2 by (simp only: reconcileAllLoop.simps(1))
  have calls: "cl_calls (snd (TierReconciler_Reconcile exFlakyEnv ?req exClusterAfterDeletion))
       = [(DoGet, ''Tier'', ''maas-api'', ''gone''),
          (DoList, ''MaasPlatform'', [], []),
          (DoList, ''Tier'', [], []),
          (DoGet, ''ConfigMap'', ''maas-api'', ''tier-to-group-mapping''),
          (DoGet, ''ConfigMap'', ''maas-api'', ''tier-to-group-mapping''),
          (DoCreate, ''ConfigMap'', ''maas-api'', ''tier-to-group-mapping''),
          (DoList, ''Tier'', [], []),
          (DoGet, ''ConfigMap'', ''maas-api'', ''tier-to-group-mapping''),
          (DoGet, ''ConfigMap'', ''maas-api'', ''tier-to-group-mapping''),
          (DoCreate, ''ConfigMap'', ''maas-api'', ''tier-to-group-mapping''),
          (DoGet, ''RateLimitPolicy'', ''openshift-ingress'', ''gateway-rate-limits''),
          (DoGet, ''RateLimitPolicy'', ''openshift-ingress'', ''gateway-rate-limits''),
          (DoCreate, ''RateLimitPolicy'', ''openshift-ingress'', ''gateway-rate-limits''),
          (DoGet, ''TokenRateLimitPolicy'', ''openshift-ingress'', ''gateway-token-rate-limits''),
          (DoGet, ''TokenRateLimitPolicy'', ''openshift-ingress'', ''gateway-token-rate-limits''),
          (DoCreate, ''TokenRateLimitPolicy'', ''openshift-ingress'',
             ''gateway-token-rate-limits'')]"
    by code_simp
  have cms: "cl_configMaps (snd (TierReconciler_Reconcile exFlakyEnv ?req exClusterAfterDeletion))
       = [exTeamConfigMap]"
    by code_simp
  have objs: "cl_objects (snd (TierReconciler_Reconcile exFlakyEnv ?req exClusterAfterDeletion))
       = [exEmptyPolicy ''kuadrant.io/v1'' ''RateLimitPolicy'' ''gateway-rate-limits'',
          exEmptyPolicy ''kuadrant.io/v1alpha1'' ''TokenRateLimitPolicy''
            ''gateway-token-rate-limits'']"
    by code_simp
  from a b c calls cms objs show ?thesis by (intro conjI)
qed

text \<open>
  An observation on the path the amended claim leaves out.  \<open>updateTierConfigMap\<close> repeats
  the \<open>Get\<close> into the ConfigMap it has just filled before it calls \<open>Update\<close>.  On the
  in-memory cluster, whose \<open>Get\<close> overwrites the object handed in, a ConfigMap that is
  already stored is therefore sent back as stored: with a client that does not fail, the
  pass of the first platform creates the ConfigMap from the tier \<open>free\<close>, and the pass
  of the second platform, whose tier is \<open>premium-team\<close>, leaves it as created.
\<close>

lemma recompute_resends_stored_configmap:
  "cl_configMaps (snd (TierReconciler_Reconcile exEnv
                         \<lparr>key_Namespace = ''maas-api'', key_Name = ''gone''\<rparr>
                         exClusterAfterDeletion))
   = [exFreeConfigMap]"
  by code_simp

text \<open>
  C3 as stated fails.  The second platform has no matching tier, and the two policies,
  which are shared by all platforms, are stored with the rules of the tiers \<open>A\<close> and \<open>B\<close>
  of the first platform.  The aggregation call for the second platform returns nil and
  leaves both policies as stored: the RateLimitPolicy keeps its two rules and the
  TokenRateLimitPolicy its one; neither has zero rules.
\<close>

theorem reconcileMaasPlatformTiers_keeps_stored_rules_counterexample:
  "filter (targets exOtherPlatform) (cl_tiers exTierClusterWithPolicies) = []
   \<and> fst (reconcileMaasPlatformTiers exEnv exOtherPlatform exTierClusterWithPolicies) = None
   \<and> cl_objects (snd (reconcileMaasPlatformTiers exEnv exOtherPlatform
                        exTierClusterWithPolicies))
       = [exStoredRateLimitPolicy, exStoredTokenRateLimitPolicy]
   \<and> NestedField (u_Object exStoredRateLimitPolicy) [''spec'', ''limits'', ''A'']
       = Some (tierLimitOf ''A'' 5 ''2m'' [])
   \<and> NestedField (u_Object exStoredRateLimitPolicy) [''spec'', ''limits'', ''B'']
       = Some (tierLimitOf ''B'' 20 ''2m'' [])
   \<and> NestedField (u_Object exStoredTokenRateLimitPolicy) [''spec'', ''limits'', ''B-user-tokens'']
       = Some (tierLimitOf ''B'' 50000 ''1m'' [])"
  by code_simp

text \<open>
  C3, as amended.  When no listed tier targets the platform, the aggregation call is a
  no-op after the listing: it returns nil in the state the listing left, for every
  client, so it reads and writes none of the three artifacts.  On the in-memory cluster
  this state is the one before the call with the listing added to the log: a stored
  tier-to-group-mapping ConfigMap and the stored policies are left as they are, whatever
  rules they hold.
\<close>

theorem reconcileMaasPlatformTiers_no_matching_tier:
  "(List_Tier r s = (Inr items, s1) \<and> filter (targets maasPlatform) items = [] \<longrightarrow>
      reconcileMaasPlatformTiers r maasPlatform s = (None, s1))
   \<and> (map_of (cl_faults c) (DoList, ''Tier'', [], []) = None
       \<and> filter (targets maasPlatform) (cl_tiers c) = [] \<longrightarrow>
      reconcileMaasPlatformTiers (fakeEnv d files parsed) maasPlatform c
        = (None, c\<lparr>cl_calls := cl_calls c @ [(DoList, ''Tier'', [], [])]\<rparr>))"
  by (simp add: reconcileMaasPlatformTiers_def fakeEnv_def fake_List_Tier_def logCall_def)

theorem reconcileMaasPlatformTiers_no_matching_tier_witness:
  "filter (targets exPlatform) (cl_tiers exClusterTiersGone) = []
   \<and> reconcileMaasPlatformTiers exEnv exPlatform exClusterTiersGone
       = (None, exClusterTiersGone\<lparr>cl_calls := [(DoList, ''Tier'', [], [])]\<rparr>)
   \<and> cl_configMaps exClusterTiersGone = [exStoredConfigMap]
   \<and> cl_objects exClusterTiersGone = [exStoredRateLimitPolicy, exStoredTokenRateLimitPolicy]
   \<and> reconcileMaasPlatformTiers exEnv exOtherPlatform exTierClusterStored
       = (None, logCall (DoList, ''Tier'', [], []) exTierClusterStored)"
proof -
  have nofault: "map_of (cl_faults exClusterTiersGone) (DoList, ''Tier'', [], []) = None"
    by code_simp
  have none: "filter (targets exPlatform) (cl_tiers exClusterTiersGone) = []" by code_simp
  have calls: "cl_calls exClusterTiersGone = []" by code_simp
  have res: "reconcileMaasPlatformTiers exEnv exPlatform exClusterTiersGone
       = (None, exClusterTiersGone\<lparr>cl_calls := [(DoList, ''Tier'', [], [])]\<rparr>)"
    using reconcileMaasPlatformTiers_no_matching_tier
            [where c = exClusterTiersGone and maasPlatform = exPlatform
               and d = "''apps.test''" and files = exFiles and parsed = exParsed,
             THEN conjunct2, THEN mp, OF conjI, OF nofault none]
    unfolding exEnv_def calls by simp
  have cms: "cl_configMaps exClusterTiersGone = [exStoredConfigMap]" by code_simp
  have objs: "cl_objects exClusterTiersGone
                = [exStoredRateLimitPolicy, exStoredTokenRateLimitPolicy]" by code_simp
  let ?s1 = "logCall (DoList, ''Tier'', [], []) exTierClusterStored"
  have listed: "List_Tier exEnv exTierClusterStored = (Inr [exTierA, exTierB], ?s1)"
    by code_simp
  have none2: "filter (targets exOtherPlatform) [exTierA, exTierB] = []" by code_simp
  have res2: "reconcileMaasPlatformTiers exEnv exOtherPlatform exTierClusterStored = (None, ?s1)"
    using reconcileMaasPlatformTiers_no_matching_tier
            [where r = exEnv and s = exTierClusterStored and items = "[exTierA, exTierB]"
               and ?s1.0 = ?s1 and maasPlatform = exOtherPlatform,
             THEN conjunct1, THEN mp, OF conjI, OF listed none2] .
  from none res cms objs res2 show ?thesis by (intro conjI)
qed

text \<open>
  C1 as stated fails: when the ConfigMap cannot be created, the call returns that error
  at once; neither the RateLimitPolicy nor the TokenRateLimitPolicy is looked up or
  written.
\<close>

theorem reconcileMaasPlatformTiers_failure_counterexample:
  "filter (targets exPlatform) (cl_tiers exTierClusterConfigMapFails) = [exTierA, exTierB]
   \<and> fst (reconcileMaasPlatformTiers exEnv exPlatform exTierClusterConfigMapFails)
       = Some (Errorf ''failed to create ConfigMap'' (ApiFailure ''quota exceeded''))
   \<and> cl_calls (snd (reconcileMaasPlatformTiers exEnv exPlatform exTierClusterConfigMapFails))
       = [(DoList, ''Tier'', [], []),
          (DoGet, ''ConfigMap'', ''maas-api'', ''tier-to-group-mapping''),
          (DoGet, ''ConfigMap'', ''maas-api'', ''tier-to-group-mapping''),
          (DoCreate, ''ConfigMap'', ''maas-api'', ''tier-to-group-mapping'')]
   \<and> cl_objects (snd (reconcileMaasPlatformTiers exEnv exPlatform exTierClusterConfigMapFails))
       = []"
  by code_simp

text \<open>
  C1, as amended.  With at least one matching tier the three artifacts are applied in
  the order ConfigMap, RateLimitPolicy, TokenRateLimitPolicy, each in the state the one
  before left, and the first failure ends the call with that error: a later artifact is
  attempted only when every earlier one succeeded.  The call returns nil exactly when
  all three were applied without error.
\<close>

theorem reconcileMaasPlatformTiers_first_failure_aborts:
  assumes listed: "List_Tier r s = (Inr items, s1)"
    and some: "targetTiers = filter (targets maasPlatform) items" "targetTiers \<noteq> []"
  shows "(updateTierConfigMap r targetTiers maasPlatform s1 = (Some e, s2) \<longrightarrow>
            reconcileMaasPlatformTiers r maasPlatform s = (Some e, s2))
       \<and> (updateTierConfigMap r targetTiers maasPlatform s1 = (None, s2) \<longrightarrow>
            (updateRateLimitPolicy r targetTiers maasPlatform s2 = (Some e, s3) \<longrightarrow>
               reconcileMaasPlatformTiers r maasPlatform s = (Some e, s3))
          \<and> (updateRateLimitPolicy r targetTiers maasPlatform s2 = (None, s3) \<longrightarrow>
               reconcileMaasPlatformTiers r maasPlatform s
               = updateTokenRateLimitPolicy r targetTiers maasPlatform s3))
       \<and> (fst (reconcileMaasPlatformTiers r maasPlatform s) = None \<longleftrightarrow>
            fst (updateTierConfigMap r targetTiers maasPlatform s1) = None
            \<and> fst (updateRateLimitPolicy r targetTiers maasPlatform
                      (snd (updateTierConfigMap r targetTiers maasPlatform s1))) = None
            \<and> fst (updateTokenRateLimitPolicy r targetTiers maasPlatform
                      (snd (updateRateLimitPolicy r targetTiers maasPlatform
                         (snd (updateTierConfigMap r targetTiers maasPlatform s1))))) = None)"
proof -
  have unf: "reconcileMaasPlatformTiers r maasPlatform s =
     (case updateTierConfigMap r targetTiers maasPlatform s1 of
        (Some err, s2) \<Rightarrow> (Some err, s2)
      | (None, s2) \<Rightarrow>
          (case updateRateLimitPolicy r targetTiers maasPlatform s2 of
             (Some err, s3) \<Rightarrow> (Some err, s3)
           | (None, s3) \<Rightarrow> updateTokenRateLimitPolicy r targetTiers maasPlatform s3))"
    using listed some
    by (simp add: reconcileMaasPlatformTiers_def Let_def split: prod.splits option.splits)
  show ?thesis
    unfolding unf by (auto split: prod.splits option.splits)
qed

theorem reconcileMaasPlatformTiers_first_failure_aborts_witness:
  "reconcileMaasPlatformTiers exEnv exPlatform exTierClusterPolicyFails
   = (Some (Errorf ''failed to create RateLimitPolicy'' (ApiFailure ''no such resource type'')),
      snd (updateRateLimitPolicy exEnv [exTierA, exTierB] exPlatform
             (snd (updateTierConfigMap exEnv [exTierA, exTierB] exPlatform
                (logCall (DoList, ''Tier'', [], []) exTierClusterPolicyFails)))))
   \<and> cl_calls (snd (reconcileMaasPlatformTiers exEnv exPlatform exTierClusterPolicyFails))
       = [(DoList, ''Tier'', [], []),
          (DoGet, ''ConfigMap'', ''maas-api'', ''tier-to-group-mapping''),
          (DoGet, ''ConfigMap'', ''maas-api'', ''tier-to-group-mapping''),
          (DoCreate, ''ConfigMap'', ''maas-api'', ''tier-to-group-mapping''),
          (DoGet, ''RateLimitPolicy'', ''openshift-ingress'', ''gateway-rate-limits''),
          (DoGet, ''RateLimitPolicy'', ''openshift-ingress'', ''gateway-rate-limits''),
          (DoCreate, ''RateLimitPolicy'', ''openshift-ingress'', ''gateway-rate-limits'')]
   \<and> map cm_Name (cl_configMaps (snd (reconcileMaasPlatformTiers exEnv exPlatform
                                        exTierClusterPolicyFails)))
       = [''tier-to-group-mapping'']
   \<and> fst (reconcileMaasPlatformTiers exEnv exPlatform exTierCluster) = None
   \<and> map u_Kind (cl_objects (snd (reconcileMaasPlatformTiers exEnv exPlatform exTierCluster)))
       = [''RateLimitPolicy'', ''TokenRateLimitPolicy'']"
proof -
  let ?s1 = "logCall (DoList, ''Tier'', [], []) exTierClusterPolicyFails"
  let ?s2 = "snd (updateTierConfigMap exEnv [exTierA, exTierB] exPlatform ?s1)"
  let ?s3 = "snd (updateRateLimitPolicy exEnv [exTierA, exTierB] exPlatform ?s2)"
  let ?e = "Errorf ''failed to create RateLimitPolicy'' (ApiFailure ''no such resource type'')"
  have listed: "List_Tier exEnv exTierClusterPolicyFails = (Inr [exTierA, exTierB], ?s1)"
    by code_simp
  have tt: "[exTierA, exTierB] = filter (targets exPlatform) [exTierA, exTierB]"
    by code_simp
  have ne: "[exTierA, exTierB] \<noteq> []" by simp
  have cm: "updateTierConfigMap exEnv [exTierA, exTierB] exPlatform ?s1 = (None, ?s2)"
    by code_simp
  have rl: "updateRateLimitPolicy exEnv [exTierA, exTierB] exPlatform ?s2 = (Some ?e, ?s3)"
    by code_simp
  have res: "reconcileMaasPlatformTiers exEnv exPlatform exTierClusterPolicyFails
             = (Some ?e, ?s3)"
    using reconcileMaasPlatformTiers_first_failure_aborts
            [OF listed tt ne, where ?s2.0 = ?s2 and ?s3.0 = ?s3 and e = ?e] cm rl
    by simp
  have calls: "cl_calls (snd (reconcileMaasPlatformTiers exEnv exPlatform exTierClusterPolicyFails))
       = [(DoList, ''Tier'', [], []),
          (DoGet, ''ConfigMap'', ''maas-api'', ''tier-to-group-mapping''),
          (DoGet, ''ConfigMap'', ''maas-api'', ''tier-to-group-mapping''),
          (DoCreate, ''ConfigMap'', ''maas-api'', ''tier-to-group-mapping''),
          (DoGet, ''RateLimitPolicy'', ''openshift-ingress'', ''gateway-rate-limits''),
          (DoGet, ''RateLimitPolicy'', ''openshift-ingress'', ''gateway-rate-limits''),
          (DoCreate, ''RateLimitPolicy'', ''openshift-ingress'', ''gateway-rate-limits'')]"
    by code_simp
  have kept: "map cm_Name (cl_configMaps (snd (reconcileMaasPlatformTiers exEnv exPlatform
                                        exTierClusterPolicyFails)))
       = [''tier-to-group-mapping'']"
    by code_simp
  have ok: "fst (reconcileMaasPlatformTiers exEnv exPlatform exTierCluster) = None"
    by code_simp
  have made: "map u_Kind (cl_objects (snd (reconcileMaasPlatformTiers exEnv exPlatform
                                             exTierCluster)))
       = [''RateLimitPolicy'', ''TokenRateLimitPolicy'']"
    by code_simp
  from res calls kept ok made show ?thesis by (intro conjI)
qed


section \<open>Properties of the limit maps\<close>














text \<open>
  An observation on the path the amended claim leaves out.  Both builders repeat the
  \<open>Get\<close> into the object they have just filled before they call \<open>Update\<close>.  On the
  in-memory cluster, whose \<open>Get\<close> overwrites the object handed in, a policy that is
  already stored is therefore sent back as stored: after tier \<open>A\<close> is gone, the recompute
  leaves the limits of \<open>A\<close> and \<open>B\<close> in place.
\<close>

lemma recompute_resends_stored_policy:
  "map (\<lambda>obj. fmlookup (u_Object obj) ''spec'')
     (cl_objects (snd (reconcileMaasPlatformTiers exEnv exPlatform
        ((snd (reconcileMaasPlatformTiers exEnv exPlatform exTierCluster))
           \<lparr>cl_tiers := [exTierB]\<rparr>))))
   = [Some (VMap (policySpec (rateLimitsLoop [exTierA, exTierB] fmempty))),
      Some (VMap (policySpec (tokenRateLimitsLoop [exTierA, exTierB] fmempty)))]"
  by code_simp


section \<open>Properties of the variable substitution\<close>

lemma ReplaceAll_Nil: "ReplaceAll [] old new = []"
  by (simp add: ReplaceAll.simps)

lemma ReplaceAll_match:
  "old \<noteq> [] \<Longrightarrow> prefix old s \<Longrightarrow>
   ReplaceAll s old new = new @ ReplaceAll (drop (length old) s) old new"
  by (subst ReplaceAll.simps) auto

lemma ReplaceAll_step:
  "\<not> prefix old (c # cs) \<Longrightarrow> ReplaceAll (c # cs) old new = c # ReplaceAll cs old new"
  by (subst ReplaceAll.simps) (auto simp: ReplaceAll.simps [of cs "[]"])

lemma ReplaceAll_skip:
  "c \<notin> set x \<Longrightarrow> ReplaceAll (x @ y) (c # old) new = x @ ReplaceAll y (c # old) new"
  by (induction x) (auto simp: ReplaceAll_step)

lemma ReplaceAll_prefix_kept:
  assumes "v \<noteq> []" and "hd v \<notin> set k" and "CHR ''$'' \<notin> set k"
    and "prefix k (ReplaceAll cs (CHR ''$'' # old) v)"
  shows "prefix k cs"
  using assms
proof (induction cs arbitrary: k)
  case Nil
  then show ?case by (simp add: ReplaceAll_Nil)
next
  case (Cons c cs)
  show ?case
  proof (cases k)
    case Nil
    then show ?thesis by simp
  next
    case (Cons a k')
    show ?thesis
    proof (cases "prefix (CHR ''$'' # old) (c # cs)")
      case True
      then have "ReplaceAll (c # cs) (CHR ''$'' # old) v
                 = v @ ReplaceAll (drop (length (CHR ''$'' # old)) (c # cs)) (CHR ''$'' # old) v"
        by (intro ReplaceAll_match) auto
      with Cons.prems(4) Cons obtain w where "v @ w = a # k' @ w \<or> prefix (a # k') (v @ w)"
        by auto
      with Cons.prems(1,4) \<open>ReplaceAll (c # cs) (CHR ''$'' # old) v = _\<close> Cons
      have "hd v = a" by (cases v) (auto simp: prefix_Cons)
      with Cons.prems(2) Cons show ?thesis by simp
    next
      case False
      then have "ReplaceAll (c # cs) (CHR ''$'' # old) v = c # ReplaceAll cs (CHR ''$'' # old) v"
        by (rule ReplaceAll_step)
      with Cons.prems(4) Cons have ac: "a = c" and p: "prefix k' (ReplaceAll cs (CHR ''$'' # old) v)"
        by auto
      from Cons.prems(2,3) Cons have "hd v \<notin> set k'" "CHR ''$'' \<notin> set k'" by auto
      from Cons.IH [OF Cons.prems(1) this p] ac Cons show ?thesis by simp
    qed
  qed
qed

lemma two_passes_are_spec_substitute:
  assumes v: "v \<noteq> []" "CHR ''$'' \<notin> set v" "hd v \<notin> set ''CLUSTER_DOMAIN''"
  shows "ReplaceAll (ReplaceAll t ''${CLUSTER_DOMAIN}'' v) ''$CLUSTER_DOMAIN'' v
         = spec_substitute v t"
proof (induction t rule: length_induct)
  case (1 t)
  let ?P1 = "''${CLUSTER_DOMAIN}''" and ?P2 = "''$CLUSTER_DOMAIN''" and ?K = "''CLUSTER_DOMAIN''"
  note IH = "1.IH" [rule_format]
  consider (nil) "t = []" | (p1) "prefix ?P1 t"
    | (p2) "\<not> prefix ?P1 t" "prefix ?P2 t"
    | (other) "t \<noteq> []" "\<not> prefix ?P1 t" "\<not> prefix ?P2 t"
    by blast
  then show ?case
  proof cases
    case nil
    then show ?thesis by (simp add: ReplaceAll_Nil spec_substitute.simps)
  next
    case p1
    then obtain rest where t: "t = ?P1 @ rest" by (auto simp: prefix_def)
    have a: "ReplaceAll t ?P1 v = v @ ReplaceAll rest ?P1 v"
      using ReplaceAll_match [of ?P1 t v] p1 t by simp
    have b: "ReplaceAll (v @ ReplaceAll rest ?P1 v) ?P2 v
             = v @ ReplaceAll (ReplaceAll rest ?P1 v) ?P2 v"
      using ReplaceAll_skip [of "CHR ''$''" v "ReplaceAll rest ?P1 v" ?K v] v(2) by simp
    have c: "spec_substitute v t = v @ spec_substitute v rest"
      using p1 t by (subst spec_substitute.simps) simp
    have "length rest < length t" using t by simp
    from IH [OF this] a b c show ?thesis by simp
  next
    case p2
    then obtain rest where t: "t = ?P2 @ rest" by (auto simp: prefix_def)
    have "ReplaceAll t ?P1 v = CHR ''$'' # ReplaceAll (?K @ rest) ?P1 v"
      using ReplaceAll_step [of ?P1 "CHR ''$''" "?K @ rest" v] p2(1) t by simp
    moreover have "ReplaceAll (?K @ rest) ?P1 v = ?K @ ReplaceAll rest ?P1 v"
      using ReplaceAll_skip [of "CHR ''$''" ?K rest "''{CLUSTER_DOMAIN}''" v] by simp
    ultimately have a: "ReplaceAll t ?P1 v = ?P2 @ ReplaceAll rest ?P1 v" by simp
    have b: "ReplaceAll (?P2 @ ReplaceAll rest ?P1 v) ?P2 v
             = v @ ReplaceAll (ReplaceAll rest ?P1 v) ?P2 v"
      using ReplaceAll_match [of ?P2 "?P2 @ ReplaceAll rest ?P1 v" v] by simp
    have c: "spec_substitute v t = v @ spec_substitute v rest"
      using p2 t by (subst spec_substitute.simps) simp
    have "length rest < length t" using t by simp
    from IH [OF this] a b c show ?thesis by simp
  next
    case other
    then obtain c cs where t: "t = c # cs" by (cases t) auto
    have a: "ReplaceAll t ?P1 v = c # ReplaceAll cs ?P1 v"
      using ReplaceAll_step [of ?P1 c cs v] other(2) t by simp
    have np: "\<not> prefix ?P2 (c # ReplaceAll cs ?P1 v)"
    proof
      assume "prefix ?P2 (c # ReplaceAll cs ?P1 v)"
      then have c: "c = CHR ''$''" and k: "prefix ?K (ReplaceAll cs ?P1 v)" by auto
      have "prefix ?K cs"
        using ReplaceAll_prefix_kept [of v ?K cs "''{CLUSTER_DOMAIN}''"] v k by simp
      with c t have "prefix ?P2 t" by simp
      with other(3) show False by simp
    qed
    have b: "ReplaceAll (c # ReplaceAll cs ?P1 v) ?P2 v
             = c # ReplaceAll (ReplaceAll cs ?P1 v) ?P2 v"
      using ReplaceAll_step [OF np] .
    have d: "spec_substitute v t = c # spec_substitute v cs"
      using other t by (subst spec_substitute.simps) auto
    have "length cs < length t" using t by simp
    from IH [OF this] a b d show ?thesis by simp
  qed
qed

text \<open>
  C7 as stated fails in its last part.  The two replacements run one after the other,
  so a value that itself holds the bare variable is rewritten by the second pass: with
  the override \<open>apps.$CLUSTER_DOMAIN\<close> the occurrence in \<open>host.${CLUSTER_DOMAIN}\<close> does
  not become that value.
\<close>

theorem substituteEnvVars_value_rewritten_counterexample:
  "fst (resolveClusterDomain exEnvUnexpanded emptyCluster) = ''apps.$CLUSTER_DOMAIN''
   \<and> fst (substituteEnvVars exEnvUnexpanded ''host.${CLUSTER_DOMAIN}'' emptyCluster)
       = ''host.apps.apps.$CLUSTER_DOMAIN''
   \<and> spec_substitute ''apps.$CLUSTER_DOMAIN'' ''host.${CLUSTER_DOMAIN}''
       = ''host.apps.$CLUSTER_DOMAIN''"
  by code_simp

text \<open>
  C7, as amended.  The resolution always returns a non-empty value and has no error
  result: the override when it is non-empty (no lookup is made); otherwise the
  \<open>spec.domain\<close> string of the cluster ingress object when the lookup succeeds and that
  string is found and non-empty; otherwise \<open>apps.example.com\<close>.  The template then goes
  through two replacements with that value, first of \<open>${CLUSTER_DOMAIN}\<close>, then of
  \<open>$CLUSTER_DOMAIN\<close>.  When the value holds no \<open>$\<close> and does not begin with a
  character of \<open>CLUSTER_DOMAIN\<close>, the result is the template with every
  \<open>${CLUSTER_DOMAIN}\<close> and every bare \<open>$CLUSTER_DOMAIN\<close> replaced by the value and all
  other text verbatim.
\<close>

theorem substituteEnvVars_resolution_and_replacement:
  "fst (resolveClusterDomain r s) \<noteq> []
   \<and> (Getenv r ''CLUSTER_DOMAIN'' \<noteq> [] \<longrightarrow>
        resolveClusterDomain r s = (Getenv r ''CLUSTER_DOMAIN'', s))
   \<and> (Getenv r ''CLUSTER_DOMAIN'' = []
       \<and> Get_Unstructured r \<lparr>key_Namespace = [], key_Name = ''cluster''\<rparr>
            (emptyUnstructured\<lparr>u_APIVersion := ''config.openshift.io/v1'',
                               u_Kind := ''Ingress''\<rparr>) s
          = ((err, ingressConfig), s1) \<longrightarrow>
        resolveClusterDomain r s =
          ((if err = None
               \<and> snd (NestedString (u_Object ingressConfig) [''spec'', ''domain''])
               \<and> fst (NestedString (u_Object ingressConfig) [''spec'', ''domain'']) \<noteq> []
            then fst (NestedString (u_Object ingressConfig) [''spec'', ''domain''])
            else ''apps.example.com''), s1))
   \<and> (resolveClusterDomain r s = (v, s') \<longrightarrow>
        substituteEnvVars r content s
        = (ReplaceAll (ReplaceAll content ''${CLUSTER_DOMAIN}'' v) ''$CLUSTER_DOMAIN'' v, s')
        \<and> (CHR ''$'' \<notin> set v \<and> hd v \<notin> set ''CLUSTER_DOMAIN'' \<longrightarrow>
             substituteEnvVars r content s = (spec_substitute v content, s')))"
proof -
  have nonempty: "fst (resolveClusterDomain r s) \<noteq> []"
    by (auto simp: resolveClusterDomain_def Let_def split: prod.splits)
  have override: "resolveClusterDomain r s = (Getenv r ''CLUSTER_DOMAIN'', s)"
    if "Getenv r ''CLUSTER_DOMAIN'' \<noteq> []"
    using that by (simp add: resolveClusterDomain_def Let_def)
  have looked: "resolveClusterDomain r s =
          ((if err = None
               \<and> snd (NestedString (u_Object ingressConfig) [''spec'', ''domain''])
               \<and> fst (NestedString (u_Object ingressConfig) [''spec'', ''domain'']) \<noteq> []
            then fst (NestedString (u_Object ingressConfig) [''spec'', ''domain''])
            else ''apps.example.com''), s1)"
    if "Getenv r ''CLUSTER_DOMAIN'' = []"
      "Get_Unstructured r \<lparr>key_Namespace = [], key_Name = ''cluster''\<rparr>
            (emptyUnstructured\<lparr>u_APIVersion := ''config.openshift.io/v1'',
                               u_Kind := ''Ingress''\<rparr>) s
          = ((err, ingressConfig), s1)"
    using that by (auto simp: resolveClusterDomain_def Let_def split: prod.splits)
  have passes: "substituteEnvVars r content s
        = (ReplaceAll (ReplaceAll content ''${CLUSTER_DOMAIN}'' v) ''$CLUSTER_DOMAIN'' v, s')"
    if "resolveClusterDomain r s = (v, s')"
    using that by (simp add: substituteEnvVars_def Let_def)
  have spec: "substituteEnvVars r content s = (spec_substitute v content, s')"
    if res: "resolveClusterDomain r s = (v, s')"
      and good: "CHR ''$'' \<notin> set v" "hd v \<notin> set ''CLUSTER_DOMAIN''"
  proof -
    from nonempty res have "v \<noteq> []" by simp
    from two_passes_are_spec_substitute [OF this good] passes [OF res] show ?thesis by simp
  qed
  show ?thesis
    apply (intro conjI impI)
        apply (rule nonempty)
       apply (erule override)
      apply (elim conjE, rule looked; assumption)
     apply (erule passes)
    apply (elim conjE, rule spec; assumption)
    done
qed

theorem substituteEnvVars_resolution_and_replacement_witness:
  "resolveClusterDomain exEnv emptyCluster = (''apps.test'', emptyCluster)
   \<and> substituteEnvVars exEnv ''host: maas.${CLUSTER_DOMAIN} alt: $CLUSTER_DOMAIN'' emptyCluster
       = (spec_substitute ''apps.test'' ''host: maas.${CLUSTER_DOMAIN} alt: $CLUSTER_DOMAIN'',
          emptyCluster)
   \<and> spec_substitute ''apps.test'' ''host: maas.${CLUSTER_DOMAIN} alt: $CLUSTER_DOMAIN''
       = ''host: maas.apps.test alt: apps.test''
   \<and> fst (resolveClusterDomain exEnvNoOverride exClusterWithIngress) = ''apps.cluster.example''
   \<and> fst (resolveClusterDomain exEnvNoOverride emptyCluster) = ''apps.example.com''"
proof -
  have env: "Getenv exEnv ''CLUSTER_DOMAIN'' = ''apps.test''" by code_simp
  have res: "resolveClusterDomain exEnv emptyCluster = (''apps.test'', emptyCluster)"
    using substituteEnvVars_resolution_and_replacement
            [where r = exEnv and s = emptyCluster, THEN conjunct2, THEN conjunct1]
    by (simp add: env)
  have good: "CHR ''$'' \<notin> set ''apps.test'' \<and> hd ''apps.test'' \<notin> set ''CLUSTER_DOMAIN''"
    by simp
  have sub: "substituteEnvVars exEnv ''host: maas.${CLUSTER_DOMAIN} alt: $CLUSTER_DOMAIN''
               emptyCluster
       = (spec_substitute ''apps.test'' ''host: maas.${CLUSTER_DOMAIN} alt: $CLUSTER_DOMAIN'',
          emptyCluster)"
    using substituteEnvVars_resolution_and_replacement
            [where r = exEnv and s = emptyCluster and v = "''apps.test''"
               and s' = emptyCluster
               and content = "''host: maas.${CLUSTER_DOMAIN} alt: $CLUSTER_DOMAIN''",
             THEN conjunct2, THEN conjunct2, THEN conjunct2, rule_format, OF res,
             THEN conjunct2, rule_format, OF good] .
  have val: "spec_substitute ''apps.test'' ''host: maas.${CLUSTER_DOMAIN} alt: $CLUSTER_DOMAIN''
       = ''host: maas.apps.test alt: apps.test''"
    by code_simp
  have ing: "fst (resolveClusterDomain exEnvNoOverride exClusterWithIngress)
               = ''apps.cluster.example''"
    by code_simp
  have dflt: "fst (resolveClusterDomain exEnvNoOverride emptyCluster) = ''apps.example.com''"
    by code_simp
  from res sub val ing dflt show ?thesis by (intro conjI)
qed

end
